theory Spec2Isabelle
  imports Complex_Main "HOL-Library.Word"
begin

section \<open>JavaScript values\<close>

text \<open>
  A JavaScript string is a sequence of UTF-16 code units. The literals of the source are
  ASCII and are written through \<open>js\<close>.
\<close>

type_synonym code_unit = "16 word"
type_synonym jsstring = "code_unit list"

definition js :: "string \<Rightarrow> jsstring" where
  "js s = map (\<lambda>c. word_of_nat (of_char c)) s"

text \<open>
  The values a parsed JSON document, a payload under construction or an identifier read
  from a response can take. Numbers are the finite ones; an object is its list of
  properties.
\<close>

datatype jsval =
    Undefined
  | Null
  | Bool bool
  | Num real
  | Str jsstring
  | Arr "jsval list"
  | Obj "(string \<times> jsval) list"

text \<open>A thrown value: an \<open>Error\<close> instance with its message, or anything else.\<close>

datatype exn = Error jsstring | Thrown

text \<open>\<open>if (v)\<close> and \<open>!v\<close>.\<close>

fun truthy :: "jsval \<Rightarrow> bool" where
  "truthy Undefined = False"
| "truthy Null = False"
| "truthy (Bool b) = b"
| "truthy (Num n) = (n \<noteq> 0)"
| "truthy (Str s) = (s \<noteq> [])"
| "truthy (Arr xs) = True"
| "truthy (Obj kvs) = True"

fun nullish :: "jsval \<Rightarrow> bool" where
  "nullish Undefined = True"
| "nullish Null = True"
| "nullish v = False"

text \<open>
  Reading property \<open>k\<close> of a value that is neither \<open>undefined\<close> nor \<open>null\<close>, for
  the keys the handlers read: names that no prototype defines, \<open>length\<close> and the
  index \<open>0\<close>.
\<close>

fun member :: "jsval \<Rightarrow> string \<Rightarrow> jsval" where
  "member (Obj kvs) k = (case map_of kvs k of Some v \<Rightarrow> v | None \<Rightarrow> Undefined)"
| "member (Arr xs) k =
     (if k = ''length'' then Num (of_nat (length xs))
      else if k = ''0'' then (case xs of [] \<Rightarrow> Undefined | x # _ \<Rightarrow> x)
      else Undefined)"
| "member (Str s) k =
     (if k = ''length'' then Num (of_nat (length s))
      else if k = ''0'' then (case s of [] \<Rightarrow> Undefined | c # _ \<Rightarrow> Str [c])
      else Undefined)"
| "member v k = Undefined"

text \<open>
  \<open>v.k\<close>: a TypeError when \<open>v\<close> is \<open>undefined\<close> or \<open>null\<close> (the message is the
  one of V8).
\<close>

definition type_error :: "jsval \<Rightarrow> string \<Rightarrow> exn" where
  "type_error v k =
     Error (js (''Cannot read properties of ''
                @ (if v = Null then ''null'' else ''undefined'')
                @ '' (reading '' @ [CHR 0x27] @ k @ [CHR 0x27] @ '')''))"

definition getp :: "jsval \<Rightarrow> string \<Rightarrow> exn + jsval" where
  "getp v k = (if nullish v then Inl (type_error v k) else Inr (member v k))"

text \<open>\<open>v?.k\<close> and \<open>v?.[0]\<close>.\<close>

definition optional_chain :: "jsval \<Rightarrow> string \<Rightarrow> jsval" where
  "optional_chain v k = (if nullish v then Undefined else member v k)"

section \<open>Strings: character classes, replace, startsWith, slice\<close>

text \<open>\<open>\d\<close> is the ASCII digits; \<open>\s\<close> is WhiteSpace and LineTerminator of ECMAScript.\<close>

definition is_digit :: "code_unit \<Rightarrow> bool" where
  "is_digit c = (48 \<le> c \<and> c \<le> 57)"

definition is_space :: "code_unit \<Rightarrow> bool" where
  "is_space c =
     (c \<in> {9, 10, 11, 12, 13, 32, 160, 5760, 8232, 8233, 8239, 8287, 12288, 65279}
      \<or> (8192 \<le> c \<and> c \<le> 8202))"

definition plus_sign :: code_unit where
  "plus_sign = 43"

definition digit_zero :: code_unit where
  "digit_zero = 48"

text \<open>
  \<open>s.replace(/C+/g, '')\<close> and \<open>s.replace(/C/g, '')\<close> for a character class \<open>C\<close>:
  every code unit of the class is removed, the others stay in order.
\<close>

fun replace_all_by_empty :: "(code_unit \<Rightarrow> bool) \<Rightarrow> jsstring \<Rightarrow> jsstring" where
  "replace_all_by_empty cls [] = []"
| "replace_all_by_empty cls (c # cs) =
     (if cls c then replace_all_by_empty cls cs else c # replace_all_by_empty cls cs)"

definition startsWith :: "jsstring \<Rightarrow> code_unit \<Rightarrow> bool" where
  "startsWith s c = (case s of [] \<Rightarrow> False | d # _ \<Rightarrow> d = c)"

definition slice1 :: "jsstring \<Rightarrow> jsstring" where
  "slice1 s = drop 1 s"

text \<open>\<open>/^\d{4}$/.test(s)\<close>: no flag, so \<open>^\<close> and \<open>$\<close> are the two ends of \<open>s\<close>.\<close>

fun test_four_digits :: "jsstring \<Rightarrow> bool" where
  "test_four_digits [a, b, c, d] = (is_digit a \<and> is_digit b \<and> is_digit c \<and> is_digit d)"
| "test_four_digits s = False"

text \<open>
  The phone number in E.164 form, as both handlers compute it:
  \<^verbatim>\<open>
  let formattedPhone = data.phone.replace(/\s+/g, '').replace(/[^\d+]/g, '');
  if (formattedPhone.startsWith('0')) {
      formattedPhone = '+61' + formattedPhone.slice(1);
  } else if (!formattedPhone.startsWith('+')) {
      formattedPhone = '+61' + formattedPhone;
  }
  \<close>
\<close>

definition formattedPhone :: "jsstring \<Rightarrow> jsstring" where
  "formattedPhone phone =
     (let stripped = replace_all_by_empty (\<lambda>c. \<not> (is_digit c \<or> c = plus_sign))
                       (replace_all_by_empty is_space phone)
      in if startsWith stripped digit_zero then js ''+61'' @ slice1 stripped
         else if \<not> startsWith stripped plus_sign then js ''+61'' @ stripped
         else stripped)"

text \<open>
  The normalization as the specification words it: keep the decimal digits and \<open>+\<close>;
  a leading \<open>0\<close> is replaced by \<open>+61\<close>; a result with no leading \<open>+\<close> is prefixed
  with \<open>+61\<close>; a result with a leading \<open>+\<close> is passed through.
\<close>

definition spec_normalized_phone :: "jsstring \<Rightarrow> jsstring" where
  "spec_normalized_phone phone =
     (case filter (\<lambda>c. c \<in> {48, 49, 50, 51, 52, 53, 54, 55, 56, 57, 43}) phone of
        [] \<Rightarrow> js ''+61''
      | c # rest \<Rightarrow>
          if c = 48 then js ''+61'' @ rest
          else if c = 43 then c # rest
          else js ''+61'' @ (c # rest))"

section \<open>The request, the environment and the remote API\<close>

text \<open>
  \<^verbatim>\<open>interface SubscribeRequest { firstName: string; phone: string; postcode: string; }\<close>
  A field the body does not carry (or carries as \<open>null\<close>) is \<open>None\<close>.
\<close>

record SubscribeRequest =
  firstName :: "jsstring option"
  phone :: "jsstring option"
  postcode :: "jsstring option"

text \<open>
  What \<open>await request.json()\<close> resolves to: the document \<open>null\<close>, on which every
  property read throws, or a value whose fields can be read.
\<close>

datatype request_json = JsonNull | JsonObject SubscribeRequest

text \<open>\<open>import.meta.env\<close>: a variable that is not set is \<open>None\<close>.\<close>

record env =
  KLAVIYO_PUBLIC_API_KEY :: "jsstring option"
  KLAVIYO_API_KEY :: "jsstring option"
  KLAVIYO_LIST_ID :: "jsstring option"

text \<open>\<open>!v\<close> for a field or variable that is a string or missing.\<close>

fun falsy :: "jsstring option \<Rightarrow> bool" where
  "falsy None = True"
| "falsy (Some s) = (s = [])"

text \<open>
  An outbound call: the arguments of one \<open>fetch\<close>. The URL templates of the source are
  the constructors of \<open>url\<close>, with the interpolated value as argument; \<open>body\<close> is the
  value given to \<open>JSON.stringify\<close>.
\<close>

datatype url =
    ClientSubscriptions jsstring
  | ProfileSearch jsstring
  | Profiles
  | Profile jsval
  | ListProfiles jsstring

datatype verb = Get | Post | Patch

record fetch_call =
  url :: url
  http_method :: verb
  headers :: "(string \<times> jsstring) list"
  body :: "jsval option"

text \<open>
  What a \<open>fetch\<close> gives: the promise rejects, or it resolves to a response with a
  status and a body; reading the body (\<open>text()\<close>, \<open>json()\<close>) can reject too.
\<close>

datatype response_body = Unreadable exn | Readable jsstring

datatype fetch_result = Rejects exn | Resolves nat response_body

text \<open>
  Everything one invocation reads from outside: the parsed request body (or the
  rejection of \<open>request.json()\<close>), the environment, the result of the \<open>k\<close>-th
  outbound call of this invocation, the \<open>k\<close>-th reading of the clock
  (\<open>new Date().toISOString()\<close>), the JSON parser, and the comparison \<open>v > 0\<close> for
  values whose conversion to a number goes through a string.
\<close>

record world =
  request :: "exn + request_json"
  environment :: env
  fetched :: "nat \<Rightarrow> fetch_result"
  clock :: "nat \<Rightarrow> jsstring"
  JSON_parse :: "jsstring \<Rightarrow> exn + jsval"
  coerced_gt_zero :: "jsval \<Rightarrow> bool"

text \<open>What one invocation leaves behind: its outbound calls and its \<open>console.error\<close> lines.\<close>

datatype logged = LoggedError exn | LoggedText jsstring

record run =
  calls :: "fetch_call list"
  console :: "(jsstring \<times> logged option) list"

definition start :: run where
  "start = \<lparr>calls = [], console = []\<rparr>"

text \<open>\<open>new Response(JSON.stringify(payload), { status, headers })\<close>\<close>

datatype http_response =
  Response (payload: jsval) (status: nat) (response_headers: "(string \<times> jsstring) list")

section \<open>Sequencing with exceptions\<close>

type_synonym 'a io = "run \<Rightarrow> (exn + 'a) \<times> run"

definition ret :: "'a \<Rightarrow> 'a io" where
  "ret x = (\<lambda>s. (Inr x, s))"

definition throw :: "exn \<Rightarrow> 'a io" where
  "throw e = (\<lambda>s. (Inl e, s))"

definition lift :: "exn + 'a \<Rightarrow> 'a io" where
  "lift r = (\<lambda>s. (r, s))"

definition and_then :: "'a io \<Rightarrow> ('a \<Rightarrow> 'b io) \<Rightarrow> 'b io" where
  "and_then m f = (\<lambda>s. case m s of (Inl e, s') \<Rightarrow> (Inl e, s') | (Inr x, s') \<Rightarrow> f x s')"

definition try_catch :: "'a io \<Rightarrow> (exn \<Rightarrow> 'a io) \<Rightarrow> 'a io" where
  "try_catch m h = (\<lambda>s. case m s of (Inl e, s') \<Rightarrow> h e s' | (Inr x, s') \<Rightarrow> (Inr x, s'))"

definition console_error :: "jsstring \<Rightarrow> logged option \<Rightarrow> unit io" where
  "console_error label detail = (\<lambda>s. (Inr (), s\<lparr>console := console s @ [(label, detail)]\<rparr>))"

text \<open>\<open>await fetch(...)\<close>: the call is recorded, and its result is the world's.\<close>

definition fetch :: "world \<Rightarrow> fetch_call \<Rightarrow> (nat \<times> response_body) io" where
  "fetch w c = (\<lambda>s.
     (case fetched w (length (calls s)) of
        Rejects e \<Rightarrow> Inl e
      | Resolves st b \<Rightarrow> Inr (st, b),
      s\<lparr>calls := calls s @ [c]\<rparr>))"

definition ok :: "nat \<times> response_body \<Rightarrow> bool" where
  "ok r = (200 \<le> fst r \<and> fst r \<le> 299)"

definition text_of :: "nat \<times> response_body \<Rightarrow> jsstring io" where
  "text_of r = (case snd r of Unreadable e \<Rightarrow> throw e | Readable t \<Rightarrow> ret t)"

definition json_of :: "world \<Rightarrow> nat \<times> response_body \<Rightarrow> jsval io" where
  "json_of w r = and_then (text_of r) (\<lambda>t. lift (JSON_parse w t))"

section \<open>The responses of the endpoint\<close>

definition json_content_type :: "(string \<times> jsstring) list" where
  "json_content_type = [(''Content-Type'', js ''application/json'')]"

definition failure :: "jsstring \<Rightarrow> nat \<Rightarrow> http_response" where
  "failure msg st =
     Response (Obj [(''success'', Bool False), (''error'', Str msg)]) st json_content_type"

definition subscribed :: http_response where
  "subscribed =
     Response (Obj [(''success'', Bool True),
                    (''message'', Str (js ''Successfully subscribed to the wait list!''))])
       200 json_content_type"

definition klaviyo_headers :: "jsstring \<Rightarrow> (string \<times> jsstring) list" where
  "klaviyo_headers apiKey =
     [(''Authorization'', js ''Klaviyo-API-Key '' @ apiKey),
      (''Content-Type'', js ''application/json''),
      (''revision'', js ''2024-02-15'')]"

text \<open>The body of both list-membership calls: \<open>{ data: [{ type: 'profile', id }] }\<close>.\<close>

definition listPayload :: "jsval \<Rightarrow> jsval" where
  "listPayload profileId =
     Obj [(''data'', Arr [Obj [(''type'', Str (js ''profile'')), (''id'', profileId)]])]"

text \<open>
  The first property read of the handlers, \<open>data.firstName\<close>, throws on \<open>null\<close>.
\<close>

fun data_of :: "request_json \<Rightarrow> exn + SubscribeRequest" where
  "data_of JsonNull = Inl (type_error Null ''firstName'')"
| "data_of (JsonObject d) = Inr d"

text \<open>
  The string a field holds, as \<open>test\<close> and the template literals convert it. The
  handlers read a field's string only after the check that the field is not missing.
\<close>

fun string_value :: "jsstring option \<Rightarrow> jsstring" where
  "string_value (Some s) = s"
| "string_value None = js ''undefined''"

text \<open>
  A submission that gets past the two checks both handlers start with:
  \<^verbatim>\<open>
  if (!data.firstName || !data.phone || !data.postcode) { return ... 400 }
  if (!/^\d{4}$/.test(data.postcode)) { return ... 400 }
  \<close>
\<close>

definition passes_validation :: "SubscribeRequest \<Rightarrow> bool" where
  "passes_validation d =
     (\<not> (falsy (firstName d) \<or> falsy (phone d) \<or> falsy (postcode d))
      \<and> test_four_digits (string_value (postcode d)))"

section \<open>The handler that creates the profile and resolves a conflict\<close>

text \<open>
  The second \<open>POST\<close> of the source (\<open>profileResponse\<close>, status 201 or 409).
  Step 1, "Create or update the profile", yields \<open>profileId\<close>.
\<close>

definition profilePayload :: "world \<Rightarrow> SubscribeRequest \<Rightarrow> jsstring \<Rightarrow> jsval" where
  "profilePayload w d phone_number =
     Obj [(''data'', Obj
       [(''type'', Str (js ''profile'')),
        (''attributes'', Obj
          [(''phone_number'', Str phone_number),
           (''first_name'', Str (string_value (firstName d))),
           (''location'', Obj [(''zip'', Str (string_value (postcode d))),
                               (''country'', Str (js ''Australia''))]),
           (''properties'', Obj
             [(''postcode'', Str (string_value (postcode d))),
              (''source'', Str (js ''Ferguson Livestock Website'')),
              (''signup_date'', Str (clock w 0))])])])]"

definition patchPayload :: "world \<Rightarrow> SubscribeRequest \<Rightarrow> jsval \<Rightarrow> jsval" where
  "patchPayload w d profileId =
     Obj [(''data'', Obj
       [(''type'', Str (js ''profile'')),
        (''id'', profileId),
        (''attributes'', Obj
          [(''first_name'', Str (string_value (firstName d))),
           (''location'', Obj [(''zip'', Str (string_value (postcode d))),
                               (''country'', Str (js ''Australia''))]),
           (''properties'', Obj
             [(''postcode'', Str (string_value (postcode d))),
              (''source'', Str (js ''Ferguson Livestock Website'')),
              (''last_updated'', Str (clock w 1))])])])]"

text \<open>The arguments of the three \<open>fetch\<close> calls of this handler.\<close>

definition create_call ::
  "world \<Rightarrow> jsstring \<Rightarrow> SubscribeRequest \<Rightarrow> jsstring \<Rightarrow> fetch_call" where
  "create_call w apiKey d phone_number =
     \<lparr>url = Profiles, http_method = Post, headers = klaviyo_headers apiKey,
      body = Some (profilePayload w d phone_number)\<rparr>"

definition patch_call ::
  "world \<Rightarrow> jsstring \<Rightarrow> SubscribeRequest \<Rightarrow> jsval \<Rightarrow> fetch_call" where
  "patch_call w apiKey d profileId =
     \<lparr>url = Profile profileId, http_method = Patch, headers = klaviyo_headers apiKey,
      body = Some (patchPayload w d profileId)\<rparr>"

definition list_call :: "jsstring \<Rightarrow> jsstring \<Rightarrow> jsval \<Rightarrow> fetch_call" where
  "list_call apiKey listId profileId =
     \<lparr>url = ListProfiles listId, http_method = Post, headers = klaviyo_headers apiKey,
      body = Some (listPayload profileId)\<rparr>"

text \<open>\<open>errorData.errors?.[0]?.meta?.duplicate_profile_id\<close>\<close>

definition duplicate_profile_id :: "jsval \<Rightarrow> exn + jsval" where
  "duplicate_profile_id errorData =
     (case getp errorData ''errors'' of
        Inl e \<Rightarrow> Inl e
      | Inr errors \<Rightarrow>
          Inr (optional_chain (optional_chain (optional_chain errors ''0'') ''meta'')
                 ''duplicate_profile_id''))"

definition create_or_update_profile ::
  "world \<Rightarrow> jsstring \<Rightarrow> SubscribeRequest \<Rightarrow> jsstring \<Rightarrow> jsval io" where
  "create_or_update_profile w apiKey d phone_number =
     and_then (fetch w (create_call w apiKey d phone_number))
     (\<lambda>profileResponse.
        if fst profileResponse = 201 then
          and_then (json_of w profileResponse) (\<lambda>profileData.
          and_then (lift (getp profileData ''data'')) (\<lambda>created.
          lift (getp created ''id'')))
        else if fst profileResponse = 409 then
          and_then (json_of w profileResponse) (\<lambda>errorData.
          and_then (lift (duplicate_profile_id errorData)) (\<lambda>existingId.
          if truthy existingId then
            and_then (fetch w (patch_call w apiKey d existingId))
            (\<lambda>_. ret existingId)
          else throw (Error (js ''Could not get existing profile ID''))))
        else
          and_then (text_of profileResponse) (\<lambda>errorText.
          and_then (console_error (js ''Klaviyo profile creation failed:'')
                      (Some (LoggedText errorText))) (\<lambda>_.
          throw (Error (js ''Failed to create profile'')))))"

text \<open>Step 2, "Add profile to the list".\<close>

definition add_profile_to_list ::
  "world \<Rightarrow> jsstring \<Rightarrow> jsstring \<Rightarrow> jsval \<Rightarrow> unit io" where
  "add_profile_to_list w apiKey listId profileId =
     and_then (fetch w (list_call apiKey listId profileId))
     (\<lambda>listResponse.
        if \<not> ok listResponse \<and> fst listResponse \<noteq> 204 then
          and_then (text_of listResponse) (\<lambda>errorText.
          console_error (js ''Klaviyo list subscription failed:'') (Some (LoggedText errorText)))
        else ret ())"

definition try_block2 :: "world \<Rightarrow> http_response io" where
  "try_block2 w =
     and_then (lift (request w)) (\<lambda>parsed.
     and_then (lift (data_of parsed)) (\<lambda>d.
       if falsy (firstName d) \<or> falsy (phone d) \<or> falsy (postcode d) then
         ret (failure (js ''Missing required fields'') 400)
       else if \<not> test_four_digits (string_value (postcode d)) then
         ret (failure (js ''Invalid postcode format'') 400)
       else
         let phone_number = formattedPhone (string_value (phone d));
             apiKey = KLAVIYO_API_KEY (environment w);
             listId = KLAVIYO_LIST_ID (environment w)
         in if falsy apiKey \<or> falsy listId then
              and_then (console_error (js ''Missing Klaviyo configuration'') None) (\<lambda>_.
              ret (failure (js ''Server configuration error'') 500))
            else
              and_then (create_or_update_profile w (string_value apiKey) d phone_number)
              (\<lambda>profileId.
              and_then (add_profile_to_list w (string_value apiKey) (string_value listId)
                          profileId) (\<lambda>_.
              ret subscribed))))"

text \<open>
  \<^verbatim>\<open>
  } catch (error) {
      console.error('Subscribe error:', error);
      return new Response(JSON.stringify({ success: false,
          error: 'An error occurred. Please try again.' }), { status: 500, ... });
  }
  \<close>
\<close>

definition POST2 :: "world \<Rightarrow> http_response \<times> run" where
  "POST2 w =
     (case try_block2 w start of
        (Inr response, s) \<Rightarrow> (response, s)
      | (Inl error, s) \<Rightarrow>
          (failure (js ''An error occurred. Please try again.'') 500,
           s\<lparr>console := console s @ [(js ''Subscribe error:'', Some (LoggedError error))]\<rparr>))"

section \<open>The handler that subscribes, then searches for the profile\<close>

text \<open>
  The first \<open>POST\<close> of the source. Its \<open>console.log\<close> lines and the one-second wait
  before the search are left out: they change neither the calls nor the response.
\<close>

definition subscriptionPayload ::
  "world \<Rightarrow> jsstring \<Rightarrow> SubscribeRequest \<Rightarrow> jsstring \<Rightarrow> jsval" where
  "subscriptionPayload w listId d phone_number =
     Obj [(''data'', Obj
       [(''type'', Str (js ''subscription'')),
        (''attributes'', Obj
          [(''list_id'', Str listId),
           (''custom_source'', Str (js ''Ferguson Livestock Website'')),
           (''phone_number'', Str phone_number),
           (''properties'', Obj
             [(''first_name'', Str (string_value (firstName d))),
              (''postcode'', Str (string_value (postcode d))),
              (''signup_date'', Str (clock w 0))])])])]"

definition updatePayload :: "SubscribeRequest \<Rightarrow> jsval \<Rightarrow> jsval" where
  "updatePayload d profileId =
     Obj [(''data'', Obj
       [(''type'', Str (js ''profile'')),
        (''id'', profileId),
        (''attributes'', Obj
          [(''first_name'', Str (string_value (firstName d))),
           (''properties'', Obj
             [(''postcode'', Str (string_value (postcode d))),
              (''source'', Str (js ''Ferguson Livestock Website''))])])])]"

definition createPayload :: "world \<Rightarrow> SubscribeRequest \<Rightarrow> jsstring \<Rightarrow> jsval" where
  "createPayload w d phone_number =
     Obj [(''data'', Obj
       [(''type'', Str (js ''profile'')),
        (''attributes'', Obj
          [(''phone_number'', Str phone_number),
           (''first_name'', Str (string_value (firstName d))),
           (''properties'', Obj
             [(''postcode'', Str (string_value (postcode d))),
              (''source'', Str (js ''Ferguson Livestock Website'')),
              (''signup_date'', Str (clock w 1))])])])]"

text \<open>
  The arguments of the \<open>fetch\<close> calls of this handler; its two list-membership calls
  are \<open>list_call\<close> with the private key.
\<close>

definition subscription_call ::
  "world \<Rightarrow> jsstring \<Rightarrow> jsstring \<Rightarrow> SubscribeRequest \<Rightarrow> jsstring \<Rightarrow> fetch_call" where
  "subscription_call w publicApiKey listId d phone_number =
     \<lparr>url = ClientSubscriptions publicApiKey, http_method = Post,
      headers = [(''Content-Type'', js ''application/json''), (''revision'', js ''2023-06-15'')],
      body = Some (subscriptionPayload w listId d phone_number)\<rparr>"

definition search_call :: "jsstring \<Rightarrow> jsstring \<Rightarrow> fetch_call" where
  "search_call privateApiKey phone_number =
     \<lparr>url = ProfileSearch phone_number, http_method = Get,
      headers = klaviyo_headers privateApiKey, body = None\<rparr>"

definition update_call :: "jsstring \<Rightarrow> SubscribeRequest \<Rightarrow> jsval \<Rightarrow> fetch_call" where
  "update_call privateApiKey d profileId =
     \<lparr>url = Profile profileId, http_method = Patch, headers = klaviyo_headers privateApiKey,
      body = Some (updatePayload d profileId)\<rparr>"

definition create_missing_call ::
  "world \<Rightarrow> jsstring \<Rightarrow> SubscribeRequest \<Rightarrow> jsstring \<Rightarrow> fetch_call" where
  "create_missing_call w privateApiKey d phone_number =
     \<lparr>url = Profiles, http_method = Post, headers = klaviyo_headers privateApiKey,
      body = Some (createPayload w d phone_number)\<rparr>"

text \<open>
  \<open>v > 0\<close>: \<open>undefined\<close> converts to NaN, \<open>null\<close> to 0, \<open>true\<close> to 1; a string, an
  array or an object converts through a string, which the world decides.
\<close>

definition gt_zero :: "world \<Rightarrow> jsval \<Rightarrow> bool" where
  "gt_zero w v =
     (case v of
        Undefined \<Rightarrow> False
      | Null \<Rightarrow> False
      | Bool b \<Rightarrow> b
      | Num n \<Rightarrow> 0 < n
      | _ \<Rightarrow> coerced_gt_zero w v)"

text \<open>"Profile exists - update it with first_name and add to list".\<close>

definition update_found_profile ::
  "world \<Rightarrow> jsstring \<Rightarrow> jsstring \<Rightarrow> SubscribeRequest \<Rightarrow> jsval \<Rightarrow> unit io" where
  "update_found_profile w privateApiKey listId d found =
     and_then (lift (getp (member found ''0'') ''id'')) (\<lambda>profileId.
     and_then (fetch w (update_call privateApiKey d profileId)) (\<lambda>updateResponse.
     and_then (fetch w (list_call privateApiKey listId profileId)) (\<lambda>listResponse.
     ret ())))"

text \<open>"Profile doesn't exist - create it".\<close>

definition create_missing_profile ::
  "world \<Rightarrow> jsstring \<Rightarrow> jsstring \<Rightarrow> SubscribeRequest \<Rightarrow> jsstring \<Rightarrow> unit io" where
  "create_missing_profile w privateApiKey listId d phone_number =
     and_then (fetch w (create_missing_call w privateApiKey d phone_number)) (\<lambda>createResponse.
     and_then (text_of createResponse) (\<lambda>createText.
       if ok createResponse \<or> fst createResponse = 201 then
         and_then (lift (JSON_parse w createText)) (\<lambda>createData.
         and_then (lift (getp createData ''data'')) (\<lambda>created.
         and_then (lift (getp created ''id'')) (\<lambda>newProfileId.
         and_then (fetch w (list_call privateApiKey listId newProfileId)) (\<lambda>listResponse.
         ret ()))))
       else ret ()))"

text \<open>Step 2, "Verify profile exists using private API key".\<close>

definition verify_profile_exists ::
  "world \<Rightarrow> jsstring \<Rightarrow> jsstring \<Rightarrow> SubscribeRequest \<Rightarrow> jsstring \<Rightarrow> unit io" where
  "verify_profile_exists w privateApiKey listId d phone_number =
     and_then (fetch w (search_call privateApiKey phone_number)) (\<lambda>searchResponse.
     and_then (text_of searchResponse) (\<lambda>searchText.
       if ok searchResponse then
         try_catch
           (and_then (lift (JSON_parse w searchText)) (\<lambda>searchData.
            and_then (lift (getp searchData ''data'')) (\<lambda>found.
              if truthy found \<and> gt_zero w (member found ''length'') then
                update_found_profile w privateApiKey listId d found
              else
                create_missing_profile w privateApiKey listId d phone_number)))
           (\<lambda>e. console_error (js ''Error parsing search response:'') (Some (LoggedError e)))
       else ret ()))"

definition try_block1 :: "world \<Rightarrow> http_response io" where
  "try_block1 w =
     and_then (lift (request w)) (\<lambda>parsed.
     and_then (lift (data_of parsed)) (\<lambda>d.
       if falsy (firstName d) \<or> falsy (phone d) \<or> falsy (postcode d) then
         ret (failure (js ''Missing required fields'') 400)
       else if \<not> test_four_digits (string_value (postcode d)) then
         ret (failure (js ''Invalid postcode format'') 400)
       else
         let phone_number = formattedPhone (string_value (phone d));
             publicApiKey = KLAVIYO_PUBLIC_API_KEY (environment w);
             privateApiKey = KLAVIYO_API_KEY (environment w);
             listId = KLAVIYO_LIST_ID (environment w)
         in if falsy publicApiKey \<or> falsy listId then
              and_then (console_error (js ''Missing Klaviyo configuration'') None) (\<lambda>_.
              ret (failure (js ''Server configuration error'') 500))
            else
              and_then (fetch w (subscription_call w (string_value publicApiKey)
                                   (string_value listId) d phone_number)) (\<lambda>response.
              and_then (text_of response) (\<lambda>responseText.
              and_then (if \<not> falsy privateApiKey then
                          verify_profile_exists w (string_value privateApiKey)
                            (string_value listId) d phone_number
                        else ret ()) (\<lambda>_.
              ret subscribed)))))"

text \<open>
  \<^verbatim>\<open>
  } catch (error) {
      console.error('Subscribe error:', error);
      return new Response(JSON.stringify({ success: false,
          error: error instanceof Error ? error.message : 'An error occurred' }),
          { status: 500, ... });
  }
  \<close>
\<close>

fun message_of :: "exn \<Rightarrow> jsstring" where
  "message_of (Error message) = message"
| "message_of Thrown = js ''An error occurred''"

definition POST1 :: "world \<Rightarrow> http_response \<times> run" where
  "POST1 w =
     (case try_block1 w start of
        (Inr response, s) \<Rightarrow> (response, s)
      | (Inl error, s) \<Rightarrow>
          (failure (message_of error) 500,
           s\<lparr>console := console s @ [(js ''Subscribe error:'', Some (LoggedError error))]\<rparr>))"

section \<open>Write attempts against the contact store\<close>

text \<open>
  A call that creates a contact in the remote store, through the profiles endpoint or
  through the client subscription endpoint, and a call that updates one. The update
  that follows a conflict completes the create it follows: together they are one
  emulated upsert.
\<close>

definition creates_contact :: "fetch_call \<Rightarrow> bool" where
  "creates_contact c =
     (http_method c = Post \<and>
      (case url c of Profiles \<Rightarrow> True | ClientSubscriptions k \<Rightarrow> True | _ \<Rightarrow> False))"

definition updates_contact :: "fetch_call \<Rightarrow> bool" where
  "updates_contact c =
     (http_method c = Patch \<and> (case url c of Profile profileId \<Rightarrow> True | _ \<Rightarrow> False))"

section \<open>Runs that look the same\<close>

text \<open>
  Two states of an invocation with as many outbound calls and the same console lines;
  two computations that, started in such states, give the same result and end in such
  states. The arguments of the calls are left free: they carry the time stamps.
\<close>

definition same_observations :: "run \<Rightarrow> run \<Rightarrow> bool" where
  "same_observations s s' = (length (calls s) = length (calls s') \<and> console s = console s')"

definition agree :: "'a io \<Rightarrow> 'a io \<Rightarrow> bool" where
  "agree m m' =
     (\<forall>s s'. same_observations s s' \<longrightarrow>
        fst (m s) = fst (m' s') \<and> same_observations (snd (m s)) (snd (m' s')))"

section \<open>Example worlds\<close>

text \<open>
  A remote API that answers the outbound calls of one invocation from a list, in order,
  and refuses the connection once the list is used up; a parser that knows the bodies
  of the examples.
\<close>

definition answers :: "fetch_result list \<Rightarrow> nat \<Rightarrow> fetch_result" where
  "answers rs k = (if k < length rs then rs ! k else Rejects (Error (js ''fetch failed'')))"

definition sample_parse :: "jsstring \<Rightarrow> exn + jsval" where
  "sample_parse t =
     (if t = js ''{\"data\":{\"id\":\"P1\"}}'' then
        Inr (Obj [(''data'', Obj [(''id'', Str (js ''P1''))])])
      else if t = js ''{\"errors\":[{\"meta\":{\"duplicate_profile_id\":\"P0\"}}]}'' then
        Inr (Obj [(''errors'',
                   Arr [Obj [(''meta'', Obj [(''duplicate_profile_id'', Str (js ''P0''))])]])])
      else if t = js ''{\"errors\":[{\"code\":\"duplicate_profile\"}]}'' then
        Inr (Obj [(''errors'', Arr [Obj [(''code'', Str (js ''duplicate_profile''))]])])
      else if t = js ''{\"data\":[]}'' then
        Inr (Obj [(''data'', Arr [])])
      else Inl (Error (js ''Unexpected end of JSON input'')))"

definition sample_world :: "exn + request_json \<Rightarrow> env \<Rightarrow> fetch_result list \<Rightarrow> world" where
  "sample_world r e rs =
     \<lparr>request = r, environment = e, fetched = answers rs,
      clock = (\<lambda>k. js ''2025-01-01T00:00:00.000Z''),
      JSON_parse = sample_parse, coerced_gt_zero = (\<lambda>v. False)\<rparr>"

definition submission :: "string \<Rightarrow> string \<Rightarrow> string \<Rightarrow> exn + request_json" where
  "submission first ph pc =
     Inr (JsonObject \<lparr>firstName = Some (js first), phone = Some (js ph),
                       postcode = Some (js pc)\<rparr>)"

definition configured :: env where
  "configured =
     \<lparr>KLAVIYO_PUBLIC_API_KEY = Some (js ''pk''), KLAVIYO_API_KEY = Some (js ''sk''),
      KLAVIYO_LIST_ID = Some (js ''L1'')\<rparr>"

definition later_clock :: "nat \<Rightarrow> jsstring" where
  "later_clock k = js ''2026-06-30T12:00:00.000Z''"

definition unconfigured :: env where
  "unconfigured =
     \<lparr>KLAVIYO_PUBLIC_API_KEY = None, KLAVIYO_API_KEY = None, KLAVIYO_LIST_ID = None\<rparr>"

section \<open>Phone normalization\<close>

lemma replace_all_by_empty_filter:
  "replace_all_by_empty cls s = filter (\<lambda>c. \<not> cls c) s"
  by (induction s) simp_all

lemma is_digit_cases:
  "is_digit c \<longleftrightarrow> c \<in> {48, 49, 50, 51, 52, 53, 54, 55, 56, 57}"
proof
  assume "is_digit c"
  then have "48 \<le> unat c" "unat c \<le> 57"
    by (simp_all add: is_digit_def word_le_nat_alt)
  then have "unat c \<in> {48, 49, 50, 51, 52, 53, 54, 55, 56, 57}"
    by simp arith
  then show "c \<in> {48, 49, 50, 51, 52, 53, 54, 55, 56, 57}"
    by (simp add: word_unat_eq_iff)
next
  assume "c \<in> {48, 49, 50, 51, 52, 53, 54, 55, 56, 57}"
  then show "is_digit c"
    by (auto simp: is_digit_def)
qed

lemma digit_not_space: "is_digit c \<Longrightarrow> \<not> is_space c"
  by (auto simp: is_digit_cases is_space_def)

lemma kept_code_units:
  "(\<not> is_space c \<and> (is_digit c \<or> c = plus_sign))
   \<longleftrightarrow> c \<in> {48, 49, 50, 51, 52, 53, 54, 55, 56, 57, 43}"
proof -
  have "\<not> is_space 43"
    by (simp add: is_space_def)
  then show ?thesis
    using digit_not_space [of c] by (auto simp: is_digit_cases plus_sign_def)
qed

lemma stripped_filter:
  "replace_all_by_empty (\<lambda>c. \<not> (is_digit c \<or> c = plus_sign))
     (replace_all_by_empty is_space input)
   = filter (\<lambda>c. c \<in> {48, 49, 50, 51, 52, 53, 54, 55, 56, 57, 43}) input"
  by (simp add: replace_all_by_empty_filter kept_code_units cong: conj_cong)

lemma formattedPhone_spec: "formattedPhone input = spec_normalized_phone input"
  unfolding formattedPhone_def spec_normalized_phone_def stripped_filter Let_def
  by (simp add: startsWith_def slice1_def digit_zero_def plus_sign_def js_def split: list.splits)

lemmas phone_defs = formattedPhone_def js_def is_space_def is_digit_def plus_sign_def
  digit_zero_def startsWith_def slice1_def

text \<open>
  C2. The phone number the handlers compute is the one the specification describes:
  the decimal digits and \<open>+\<close> of the input are kept, a leading \<open>0\<close> of what is kept
  is replaced by \<open>+61\<close>, a result without leading \<open>+\<close> gets the prefix \<open>+61\<close>, and a
  result with a leading \<open>+\<close> is passed through. "0412 345 678" and "412345678" give
  "+61412345678", and "+61412345678" is unchanged.
\<close>

theorem phone_normalization:
  "formattedPhone input = spec_normalized_phone input
   \<and> formattedPhone (js ''0412 345 678'') = js ''+61412345678''
   \<and> formattedPhone (js ''+61412345678'') = js ''+61412345678''
   \<and> formattedPhone (js ''412345678'') = js ''+61412345678''"
proof -
  have "formattedPhone (js ''0412 345 678'') = js ''+61412345678''"
    by (simp add: phone_defs)
  moreover have "formattedPhone (js ''+61412345678'') = js ''+61412345678''"
    by (simp add: phone_defs)
  moreover have "formattedPhone (js ''412345678'') = js ''+61412345678''"
    by (simp add: phone_defs)
  ultimately show ?thesis
    by (simp add: formattedPhone_spec)
qed

theorem phone_normalization_witness:
  "formattedPhone (js ''(02) 9999-0000'') = js ''+61299990000''"
  using phone_normalization [of "js ''(02) 9999-0000''"]
  by (simp add: spec_normalized_phone_def js_def)

text \<open>
  C9. Whatever the input string, the normalized phone number begins with \<open>+\<close>; an
  input that holds no digit and no \<open>+\<close> (so that nothing is left after stripping)
  gives "+61".
\<close>

theorem normalized_phone_begins_with_plus:
  "(\<exists>rest. formattedPhone input = 43 # rest)
   \<and> ((\<forall>c \<in> set input. \<not> (48 \<le> c \<and> c \<le> 57) \<and> c \<noteq> 43) \<longrightarrow>
        formattedPhone input = js ''+61'')"
proof
  show "\<exists>rest. formattedPhone input = 43 # rest"
    unfolding formattedPhone_spec spec_normalized_phone_def
    by (simp add: js_def split: list.splits)
next
  show "(\<forall>c \<in> set input. \<not> (48 \<le> c \<and> c \<le> 57) \<and> c \<noteq> 43) \<longrightarrow>
        formattedPhone input = js ''+61''"
  proof
    assume "\<forall>c \<in> set input. \<not> (48 \<le> c \<and> c \<le> 57) \<and> c \<noteq> 43"
    then have "filter (\<lambda>c. \<not> \<not> (is_digit c \<or> c = plus_sign))
                 (filter (\<lambda>c. \<not> is_space c) input) = []"
      by (auto simp: filter_empty_conv is_digit_def plus_sign_def)
    then show "formattedPhone input = js ''+61''"
      by (simp add: formattedPhone_def replace_all_by_empty_filter startsWith_def)
  qed
qed

theorem normalized_phone_begins_with_plus_witness:
  "formattedPhone (js ''n/a '') = js ''+61''
   \<and> (\<exists>rest. formattedPhone (js ''n/a '') = 43 # rest)"
  using normalized_phone_begins_with_plus [of "js ''n/a ''"]
  by (simp add: js_def)

section \<open>Running the handlers\<close>

lemmas io_defs = and_then_def ret_def throw_def lift_def try_catch_def console_error_def
  fetch_def text_of_def json_of_def

lemma and_then_lift_Inl: "and_then (lift (Inl e)) f s = (Inl e, s)"
  by (simp add: and_then_def lift_def)

lemma and_then_lift_Inr: "and_then (lift (Inr x)) f s = f x s"
  by (simp add: and_then_def lift_def)

lemma and_then_console_error:
  "and_then (console_error l x) f s = f () (s\<lparr>console := console s @ [(l, x)]\<rparr>)"
  by (simp add: and_then_def console_error_def)

lemma and_then_fetch:
  "and_then (fetch w c) f s =
     (case fetched w (length (calls s)) of
        Rejects e \<Rightarrow> (Inl e, s\<lparr>calls := calls s @ [c]\<rparr>)
      | Resolves st b \<Rightarrow> f (st, b) (s\<lparr>calls := calls s @ [c]\<rparr>))"
  by (simp add: and_then_def fetch_def split: fetch_result.splits)

text \<open>A sequence whose last step returns the constant \<open>c\<close> returns \<open>c\<close> or throws.\<close>

lemma and_then_final:
  assumes "\<And>x t. fst (f x t) = Inr c \<or> (\<exists>e. fst (f x t) = Inl e)"
  shows "fst (and_then m f s) = Inr c \<or> (\<exists>e. fst (and_then m f s) = Inl e)"
proof (cases "m s")
  case (Pair r s')
  then show ?thesis
    using assms by (cases r) (simp_all add: and_then_def)
qed

lemma ret_final: "fst (ret c t) = Inr c \<or> (\<exists>e. fst (ret c t) = Inl e)"
  by (simp add: ret_def)

subsection \<open>The stages before the first outbound call\<close>

lemma try_block2_unparsed:
  "request w = Inl e \<Longrightarrow> try_block2 w s = (Inl e, s)"
  by (simp add: try_block2_def and_then_lift_Inl)

lemma try_block1_unparsed:
  "request w = Inl e \<Longrightarrow> try_block1 w s = (Inl e, s)"
  by (simp add: try_block1_def and_then_lift_Inl)

lemma try_block2_null:
  "request w = Inr JsonNull \<Longrightarrow> try_block2 w s = (Inl (type_error Null ''firstName''), s)"
  by (simp add: try_block2_def and_then_lift_Inl and_then_lift_Inr)

lemma try_block1_null:
  "request w = Inr JsonNull \<Longrightarrow> try_block1 w s = (Inl (type_error Null ''firstName''), s)"
  by (simp add: try_block1_def and_then_lift_Inl and_then_lift_Inr)

lemma try_block2_missing:
  assumes "request w = Inr (JsonObject d)"
    and "falsy (firstName d) \<or> falsy (phone d) \<or> falsy (postcode d)"
  shows "try_block2 w s = (Inr (failure (js ''Missing required fields'') 400), s)"
  using assms by (simp add: try_block2_def and_then_lift_Inr ret_def)

lemma try_block1_missing:
  assumes "request w = Inr (JsonObject d)"
    and "falsy (firstName d) \<or> falsy (phone d) \<or> falsy (postcode d)"
  shows "try_block1 w s = (Inr (failure (js ''Missing required fields'') 400), s)"
  using assms by (simp add: try_block1_def and_then_lift_Inr ret_def)

lemma try_block2_postcode:
  assumes "request w = Inr (JsonObject d)"
    and "\<not> (falsy (firstName d) \<or> falsy (phone d) \<or> falsy (postcode d))"
    and "\<not> test_four_digits (string_value (postcode d))"
  shows "try_block2 w s = (Inr (failure (js ''Invalid postcode format'') 400), s)"
  using assms by (simp add: try_block2_def and_then_lift_Inr ret_def)

lemma try_block1_postcode:
  assumes "request w = Inr (JsonObject d)"
    and "\<not> (falsy (firstName d) \<or> falsy (phone d) \<or> falsy (postcode d))"
    and "\<not> test_four_digits (string_value (postcode d))"
  shows "try_block1 w s = (Inr (failure (js ''Invalid postcode format'') 400), s)"
  using assms by (simp add: try_block1_def and_then_lift_Inr ret_def)

lemma try_block2_unconfigured:
  assumes "request w = Inr (JsonObject d)"
    and "\<not> (falsy (firstName d) \<or> falsy (phone d) \<or> falsy (postcode d))"
    and "test_four_digits (string_value (postcode d))"
    and "falsy (KLAVIYO_API_KEY (environment w)) \<or> falsy (KLAVIYO_LIST_ID (environment w))"
  shows "try_block2 w s =
     (Inr (failure (js ''Server configuration error'') 500),
      s\<lparr>console := console s @ [(js ''Missing Klaviyo configuration'', None)]\<rparr>)"
  using assms by (simp add: try_block2_def and_then_lift_Inr and_then_console_error ret_def)

lemma try_block1_unconfigured:
  assumes "request w = Inr (JsonObject d)"
    and "\<not> (falsy (firstName d) \<or> falsy (phone d) \<or> falsy (postcode d))"
    and "test_four_digits (string_value (postcode d))"
    and "falsy (KLAVIYO_PUBLIC_API_KEY (environment w))
         \<or> falsy (KLAVIYO_LIST_ID (environment w))"
  shows "try_block1 w s =
     (Inr (failure (js ''Server configuration error'') 500),
      s\<lparr>console := console s @ [(js ''Missing Klaviyo configuration'', None)]\<rparr>)"
  using assms by (simp add: try_block1_def and_then_lift_Inr and_then_console_error ret_def)

lemma try_block2_configured:
  assumes "request w = Inr (JsonObject d)"
    and "\<not> (falsy (firstName d) \<or> falsy (phone d) \<or> falsy (postcode d))"
    and "test_four_digits (string_value (postcode d))"
    and "\<not> (falsy (KLAVIYO_API_KEY (environment w)) \<or> falsy (KLAVIYO_LIST_ID (environment w)))"
  shows "try_block2 w s =
     and_then (create_or_update_profile w (string_value (KLAVIYO_API_KEY (environment w))) d
                 (formattedPhone (string_value (phone d))))
       (\<lambda>profileId.
          and_then (add_profile_to_list w (string_value (KLAVIYO_API_KEY (environment w)))
                      (string_value (KLAVIYO_LIST_ID (environment w))) profileId)
            (\<lambda>_. ret subscribed)) s"
  using assms by (simp add: try_block2_def and_then_lift_Inr Let_def)

lemma try_block1_configured:
  assumes "request w = Inr (JsonObject d)"
    and "\<not> (falsy (firstName d) \<or> falsy (phone d) \<or> falsy (postcode d))"
    and "test_four_digits (string_value (postcode d))"
    and "\<not> (falsy (KLAVIYO_PUBLIC_API_KEY (environment w))
            \<or> falsy (KLAVIYO_LIST_ID (environment w)))"
  shows "try_block1 w s =
     and_then (fetch w (subscription_call w
                 (string_value (KLAVIYO_PUBLIC_API_KEY (environment w)))
                 (string_value (KLAVIYO_LIST_ID (environment w))) d
                 (formattedPhone (string_value (phone d)))))
       (\<lambda>response.
          and_then (text_of response) (\<lambda>responseText.
          and_then (if \<not> falsy (KLAVIYO_API_KEY (environment w)) then
                      verify_profile_exists w (string_value (KLAVIYO_API_KEY (environment w)))
                        (string_value (KLAVIYO_LIST_ID (environment w))) d
                        (formattedPhone (string_value (phone d)))
                    else ret ())
            (\<lambda>_. ret subscribed))) s"
  using assms by (simp add: try_block1_def and_then_lift_Inr Let_def)

text \<open>The response of a handler, from what its \<open>try\<close> block gives.\<close>

lemma POST2_caught:
  "try_block2 w start = (Inl e, s) \<Longrightarrow>
   POST2 w = (failure (js ''An error occurred. Please try again.'') 500,
              s\<lparr>console := console s @ [(js ''Subscribe error:'', Some (LoggedError e))]\<rparr>)"
  by (simp add: POST2_def)

lemma POST1_caught:
  "try_block1 w start = (Inl e, s) \<Longrightarrow>
   POST1 w = (failure (message_of e) 500,
              s\<lparr>console := console s @ [(js ''Subscribe error:'', Some (LoggedError e))]\<rparr>)"
  by (simp add: POST1_def)

text \<open>A submission that passes validation is answered with 200 or 500.\<close>

lemma POST2_validated_status:
  assumes "request w = Inr (JsonObject d)"
    and "\<not> (falsy (firstName d) \<or> falsy (phone d) \<or> falsy (postcode d))"
    and "test_four_digits (string_value (postcode d))"
  shows "status (fst (POST2 w)) = 200 \<or> status (fst (POST2 w)) = 500"
proof (cases "falsy (KLAVIYO_API_KEY (environment w)) \<or> falsy (KLAVIYO_LIST_ID (environment w))")
  case True
  then show ?thesis
    using assms by (simp add: POST2_def try_block2_unconfigured failure_def)
next
  case False
  have "fst (try_block2 w start) = Inr subscribed \<or> (\<exists>e. fst (try_block2 w start) = Inl e)"
    unfolding try_block2_configured [OF assms False]
    by (intro and_then_final ret_final)
  then show ?thesis
    by (cases "try_block2 w start")
      (auto simp: POST2_def subscribed_def failure_def)
qed

lemma POST1_validated_status:
  assumes "request w = Inr (JsonObject d)"
    and "\<not> (falsy (firstName d) \<or> falsy (phone d) \<or> falsy (postcode d))"
    and "test_four_digits (string_value (postcode d))"
  shows "status (fst (POST1 w)) = 200 \<or> status (fst (POST1 w)) = 500"
proof (cases "falsy (KLAVIYO_PUBLIC_API_KEY (environment w))
              \<or> falsy (KLAVIYO_LIST_ID (environment w))")
  case True
  then show ?thesis
    using assms by (simp add: POST1_def try_block1_unconfigured failure_def)
next
  case False
  have "fst (try_block1 w start) = Inr subscribed \<or> (\<exists>e. fst (try_block1 w start) = Inl e)"
    unfolding try_block1_configured [OF assms False]
    by (intro and_then_final ret_final)
  then show ?thesis
    by (cases "try_block1 w start")
      (auto simp: POST1_def subscribed_def failure_def)
qed

lemma test_four_digits_iff:
  "test_four_digits s \<longleftrightarrow> length s = 4 \<and> (\<forall>c \<in> set s. 48 \<le> c \<and> c \<le> 57)"
proof (cases s)
  case Nil
  then show ?thesis by simp
next
  case s: (Cons a s1)
  show ?thesis
  proof (cases s1)
    case Nil
    with s show ?thesis by simp
  next
    case s1: (Cons b s2)
    show ?thesis
    proof (cases s2)
      case Nil
      with s s1 show ?thesis by simp
    next
      case s2: (Cons c s3)
      show ?thesis
      proof (cases s3)
        case Nil
        with s s1 s2 show ?thesis by simp
      next
        case (Cons e s4)
        with s s1 s2 show ?thesis
          by (cases s4) (auto simp: is_digit_def)
      qed
    qed
  qed
qed

lemma falsy_iff: "falsy v \<longleftrightarrow> v \<in> {None, Some []}"
  by (cases v) auto

lemmas run_defs = POST2_def POST1_def try_block2_def try_block1_def
  create_or_update_profile_def add_profile_to_list_def verify_profile_exists_def
  update_found_profile_def create_missing_profile_def io_defs start_def sample_world_def
  answers_def submission_def configured_def unconfigured_def sample_parse_def ok_def getp_def
  duplicate_profile_id_def optional_chain_def gt_zero_def Let_def js_def is_digit_def

section \<open>Validation\<close>

text \<open>
  C6. A submission in which \<open>firstName\<close>, \<open>phone\<close> or \<open>postcode\<close> is absent or the
  empty string is answered, by both handlers, with status 400 and the body
  \<open>{success: false, error: "Missing required fields"}\<close>.
\<close>

theorem missing_fields_rejected:
  assumes "request w = Inr (JsonObject d)"
    and "firstName d \<in> {None, Some []} \<or> phone d \<in> {None, Some []}
         \<or> postcode d \<in> {None, Some []}"
  shows "fst (POST1 w) =
           Response (Obj [(''success'', Bool False),
                          (''error'', Str (js ''Missing required fields''))])
             400 json_content_type
       \<and> fst (POST2 w) =
           Response (Obj [(''success'', Bool False),
                          (''error'', Str (js ''Missing required fields''))])
             400 json_content_type"
proof -
  have "falsy (firstName d) \<or> falsy (phone d) \<or> falsy (postcode d)"
    using assms(2) by (simp only: falsy_iff)
  then show ?thesis
    using assms(1)
    by (simp add: POST1_def POST2_def try_block1_missing try_block2_missing failure_def)
qed

theorem missing_fields_rejected_witness:
  "fst (POST1 (sample_world (submission ''Dana'' [] ''2000'') configured [])) =
     Response (Obj [(''success'', Bool False),
                    (''error'', Str (js ''Missing required fields''))])
       400 json_content_type
   \<and> fst (POST2 (sample_world (submission ''Dana'' [] ''2000'') configured [])) =
     Response (Obj [(''success'', Bool False),
                    (''error'', Str (js ''Missing required fields''))])
       400 json_content_type"
  using missing_fields_rejected
    [of "sample_world (submission ''Dana'' [] ''2000'') configured []"
        "\<lparr>firstName = Some (js ''Dana''), phone = Some [], postcode = Some (js ''2000'')\<rparr>"]
  by (simp add: sample_world_def submission_def js_def)

text \<open>
  C7. A submission whose three fields are present and non-empty, and whose postcode is
  not exactly four decimal digits, is answered by both handlers with status 400 and the
  body \<open>{success: false, error: "Invalid postcode format"}\<close>; a postcode of exactly
  four decimal digits passes: the answer is then not a 400.
\<close>

theorem postcode_format_checked:
  assumes "request w = Inr (JsonObject d)"
    and "firstName d = Some first" and "first \<noteq> []"
    and "phone d = Some ph" and "ph \<noteq> []"
    and "postcode d = Some pc" and "pc \<noteq> []"
  shows "(\<not> (length pc = 4 \<and> (\<forall>c \<in> set pc. 48 \<le> c \<and> c \<le> 57)) \<longrightarrow>
            fst (POST1 w) =
              Response (Obj [(''success'', Bool False),
                             (''error'', Str (js ''Invalid postcode format''))])
                400 json_content_type
          \<and> fst (POST2 w) =
              Response (Obj [(''success'', Bool False),
                             (''error'', Str (js ''Invalid postcode format''))])
                400 json_content_type)
       \<and> (length pc = 4 \<and> (\<forall>c \<in> set pc. 48 \<le> c \<and> c \<le> 57) \<longrightarrow>
            status (fst (POST1 w)) \<noteq> 400 \<and> status (fst (POST2 w)) \<noteq> 400)"
proof -
  have present: "\<not> (falsy (firstName d) \<or> falsy (phone d) \<or> falsy (postcode d))"
    using assms by simp
  have pc: "string_value (postcode d) = pc"
    using assms by simp
  show ?thesis
  proof (cases "test_four_digits pc")
    case False
    then have "\<not> test_four_digits (string_value (postcode d))"
      by (simp add: pc)
    then show ?thesis
      using False assms(1) present
      by (simp add: POST1_def POST2_def try_block1_postcode try_block2_postcode failure_def
            test_four_digits_iff)
  next
    case True
    then have four: "test_four_digits (string_value (postcode d))"
      by (simp add: pc)
    have "status (fst (POST1 w)) \<noteq> 400"
      using POST1_validated_status [OF assms(1) present four] by auto
    moreover have "status (fst (POST2 w)) \<noteq> 400"
      using POST2_validated_status [OF assms(1) present four] by auto
    ultimately show ?thesis
      using True by (simp add: test_four_digits_iff)
  qed
qed

theorem postcode_format_checked_witness:
  "fst (POST1 (sample_world (submission ''Dana'' ''0412 345 678'' ''ABCD'') configured [])) =
     Response (Obj [(''success'', Bool False),
                    (''error'', Str (js ''Invalid postcode format''))])
       400 json_content_type
   \<and> fst (POST2 (sample_world (submission ''Dana'' ''0412 345 678'' ''12345'') configured [])) =
     Response (Obj [(''success'', Bool False),
                    (''error'', Str (js ''Invalid postcode format''))])
       400 json_content_type
   \<and> status (fst (POST2 (sample_world (submission ''Dana'' ''0412 345 678'' ''2000'')
                 configured []))) \<noteq> 400"
  using
    postcode_format_checked
      [of "sample_world (submission ''Dana'' ''0412 345 678'' ''ABCD'') configured []"
          "\<lparr>firstName = Some (js ''Dana''), phone = Some (js ''0412 345 678''),
            postcode = Some (js ''ABCD'')\<rparr>"
          "js ''Dana''" "js ''0412 345 678''" "js ''ABCD''"]
    postcode_format_checked
      [of "sample_world (submission ''Dana'' ''0412 345 678'' ''12345'') configured []"
          "\<lparr>firstName = Some (js ''Dana''), phone = Some (js ''0412 345 678''),
            postcode = Some (js ''12345'')\<rparr>"
          "js ''Dana''" "js ''0412 345 678''" "js ''12345''"]
    postcode_format_checked
      [of "sample_world (submission ''Dana'' ''0412 345 678'' ''2000'') configured []"
          "\<lparr>firstName = Some (js ''Dana''), phone = Some (js ''0412 345 678''),
            postcode = Some (js ''2000'')\<rparr>"
          "js ''Dana''" "js ''0412 345 678''" "js ''2000''"]
  by (simp add: sample_world_def submission_def js_def)

text \<open>
  C10. The validation stages of the two handlers agree: a submission with a missing or
  empty field, or with a postcode that is not four decimal digits, gets the same
  response from both, with status 400, and neither handler issues an outbound call.
\<close>

theorem validation_stages_agree:
  assumes "request w = Inr (JsonObject d)"
    and "firstName d \<in> {None, Some []} \<or> phone d \<in> {None, Some []}
         \<or> postcode d \<in> {None, Some []}
         \<or> (\<exists>pc. postcode d = Some pc
               \<and> \<not> (length pc = 4 \<and> (\<forall>c \<in> set pc. 48 \<le> c \<and> c \<le> 57)))"
  shows "fst (POST1 w) = fst (POST2 w)
       \<and> status (fst (POST1 w)) = 400
       \<and> calls (snd (POST1 w)) = [] \<and> calls (snd (POST2 w)) = []"
proof (cases "falsy (firstName d) \<or> falsy (phone d) \<or> falsy (postcode d)")
  case True
  then show ?thesis
    using assms(1)
    by (simp add: POST1_def POST2_def try_block1_missing try_block2_missing failure_def
          start_def)
next
  case False
  then obtain pc where "postcode d = Some pc"
      and "\<not> (length pc = 4 \<and> (\<forall>c \<in> set pc. 48 \<le> c \<and> c \<le> 57))"
    using assms(2) by (auto simp: falsy_iff)
  then have "\<not> test_four_digits (string_value (postcode d))"
    by (simp add: test_four_digits_iff)
  then show ?thesis
    using assms(1) False
    by (simp add: POST1_def POST2_def try_block1_postcode try_block2_postcode failure_def
          start_def)
qed

theorem validation_stages_agree_witness:
  "fst (POST1 (sample_world (submission ''Dana'' ''0412 345 678'' ''123'') configured [])) =
   fst (POST2 (sample_world (submission ''Dana'' ''0412 345 678'' ''123'') configured []))
   \<and> status (fst (POST1 (sample_world (submission ''Dana'' ''0412 345 678'' ''123'')
                 configured []))) = 400
   \<and> calls (snd (POST1 (sample_world (submission ''Dana'' ''0412 345 678'' ''123'')
                 configured []))) = []
   \<and> calls (snd (POST2 (sample_world (submission ''Dana'' ''0412 345 678'' ''123'')
                 configured []))) = []"
proof -
  have parsed:
    "request (sample_world (submission ''Dana'' ''0412 345 678'' ''123'') configured []) =
     Inr (JsonObject \<lparr>firstName = Some (js ''Dana''), phone = Some (js ''0412 345 678''),
                       postcode = Some (js ''123'')\<rparr>)"
    by (simp add: sample_world_def submission_def)
  have invalid:
    "firstName \<lparr>firstName = Some (js ''Dana''), phone = Some (js ''0412 345 678''),
                 postcode = Some (js ''123'')\<rparr> \<in> {None, Some []}
     \<or> phone \<lparr>firstName = Some (js ''Dana''), phone = Some (js ''0412 345 678''),
               postcode = Some (js ''123'')\<rparr> \<in> {None, Some []}
     \<or> postcode \<lparr>firstName = Some (js ''Dana''), phone = Some (js ''0412 345 678''),
                  postcode = Some (js ''123'')\<rparr> \<in> {None, Some []}
     \<or> (\<exists>pc. postcode \<lparr>firstName = Some (js ''Dana''), phone = Some (js ''0412 345 678''),
                          postcode = Some (js ''123'')\<rparr> = Some pc
           \<and> \<not> (length pc = 4 \<and> (\<forall>c \<in> set pc. 48 \<le> c \<and> c \<le> 57)))"
    by (simp add: js_def)
  show ?thesis
    by (rule validation_stages_agree [OF parsed invalid])
qed

section \<open>The two steps of the handler that creates the profile\<close>

lemma and_then_Inl: "m s = (Inl e, s') \<Longrightarrow> and_then m f s = (Inl e, s')"
  by (simp add: and_then_def)

lemma and_then_Inr: "m s = (Inr x, s') \<Longrightarrow> and_then m f s = f x s'"
  by (simp add: and_then_def)

lemma create_rejected:
  assumes "fetched w (length (calls s)) = Rejects e"
  shows "create_or_update_profile w k d ph s =
     (Inl e, s\<lparr>calls := calls s @ [create_call w k d ph]\<rparr>)"
  using assms by (simp add: create_or_update_profile_def and_then_fetch)

lemma create_201:
  assumes "fetched w (length (calls s)) = Resolves 201 b"
  shows "create_or_update_profile w k d ph s =
     (case b of
        Unreadable e \<Rightarrow> Inl e
      | Readable t \<Rightarrow>
          (case JSON_parse w t of
             Inl e \<Rightarrow> Inl e
           | Inr profileData \<Rightarrow>
               (case getp profileData ''data'' of
                  Inl e \<Rightarrow> Inl e
                | Inr created \<Rightarrow> getp created ''id'')),
      s\<lparr>calls := calls s @ [create_call w k d ph]\<rparr>)"
  using assms
  by (simp add: create_or_update_profile_def and_then_fetch io_defs
        split: response_body.splits sum.splits)

lemma create_409:
  assumes "fetched w (length (calls s)) = Resolves 409 b"
  shows "create_or_update_profile w k d ph s =
     (case b of
        Unreadable e \<Rightarrow> (Inl e, s\<lparr>calls := calls s @ [create_call w k d ph]\<rparr>)
      | Readable t \<Rightarrow>
          (case JSON_parse w t of
             Inl e \<Rightarrow> (Inl e, s\<lparr>calls := calls s @ [create_call w k d ph]\<rparr>)
           | Inr errorData \<Rightarrow>
               (case duplicate_profile_id errorData of
                  Inl e \<Rightarrow> (Inl e, s\<lparr>calls := calls s @ [create_call w k d ph]\<rparr>)
                | Inr existingId \<Rightarrow>
                    if truthy existingId then
                      (case fetched w (Suc (length (calls s))) of
                         Rejects e \<Rightarrow> Inl e
                       | Resolves st b' \<Rightarrow> Inr existingId,
                       s\<lparr>calls := calls s @ [create_call w k d ph,
                                                patch_call w k d existingId]\<rparr>)
                    else (Inl (Error (js ''Could not get existing profile ID'')),
                          s\<lparr>calls := calls s @ [create_call w k d ph]\<rparr>))))"
  using assms
  by (simp add: create_or_update_profile_def and_then_fetch io_defs
        split: response_body.splits sum.splits fetch_result.splits)

lemma create_other:
  assumes "fetched w (length (calls s)) = Resolves st b" and "st \<noteq> 201" and "st \<noteq> 409"
  shows "create_or_update_profile w k d ph s =
     (case b of
        Unreadable e \<Rightarrow> (Inl e, s\<lparr>calls := calls s @ [create_call w k d ph]\<rparr>)
      | Readable t \<Rightarrow>
          (Inl (Error (js ''Failed to create profile'')),
           s\<lparr>calls := calls s @ [create_call w k d ph],
             console := console s @ [(js ''Klaviyo profile creation failed:'',
                                       Some (LoggedText t))]\<rparr>))"
  using assms
  by (simp add: create_or_update_profile_def and_then_fetch io_defs
        split: response_body.splits sum.splits fetch_result.splits)

lemma add_profile_to_list_run:
  "add_profile_to_list w k l pid s =
     (case fetched w (length (calls s)) of
        Rejects e \<Rightarrow> (Inl e, s\<lparr>calls := calls s @ [list_call k l pid]\<rparr>)
      | Resolves st b \<Rightarrow>
          if \<not> ok (st, b) \<and> st \<noteq> 204 then
            (case b of
               Unreadable e \<Rightarrow> (Inl e, s\<lparr>calls := calls s @ [list_call k l pid]\<rparr>)
             | Readable t \<Rightarrow>
                 (Inr (), s\<lparr>calls := calls s @ [list_call k l pid],
                    console := console s @ [(js ''Klaviyo list subscription failed:'',
                                              Some (LoggedText t))]\<rparr>))
          else (Inr (), s\<lparr>calls := calls s @ [list_call k l pid]\<rparr>))"
  by (simp add: add_profile_to_list_def and_then_fetch io_defs
        split: response_body.splits sum.splits fetch_result.splits)

section \<open>Configuration\<close>

lemma POST2_unconfigured_no_calls:
  assumes "falsy (KLAVIYO_API_KEY (environment w)) \<or> falsy (KLAVIYO_LIST_ID (environment w))"
  shows "calls (snd (POST2 w)) = []"
proof (cases "request w")
  case (Inl e)
  then show ?thesis
    by (simp add: POST2_def try_block2_unparsed start_def)
next
  case (Inr parsed)
  show ?thesis
  proof (cases parsed)
    case JsonNull
    with Inr show ?thesis
      by (simp add: POST2_def try_block2_null start_def)
  next
    case (JsonObject d)
    with Inr have parsed: "request w = Inr (JsonObject d)"
      by simp
    consider "falsy (firstName d) \<or> falsy (phone d) \<or> falsy (postcode d)"
      | "\<not> (falsy (firstName d) \<or> falsy (phone d) \<or> falsy (postcode d))"
        "\<not> test_four_digits (string_value (postcode d))"
      | "\<not> (falsy (firstName d) \<or> falsy (phone d) \<or> falsy (postcode d))"
        "test_four_digits (string_value (postcode d))"
      by blast
    then show ?thesis
    proof cases
      case 1
      then show ?thesis
        by (simp add: POST2_def try_block2_missing [OF parsed] start_def)
    next
      case 2
      then show ?thesis
        by (simp add: POST2_def try_block2_postcode [OF parsed] start_def)
    next
      case 3
      then show ?thesis
        by (simp add: POST2_def try_block2_unconfigured [OF parsed _ _ assms] start_def)
    qed
  qed
qed

lemma POST1_unconfigured_no_calls:
  assumes "falsy (KLAVIYO_PUBLIC_API_KEY (environment w))
           \<or> falsy (KLAVIYO_LIST_ID (environment w))"
  shows "calls (snd (POST1 w)) = []"
proof (cases "request w")
  case (Inl e)
  then show ?thesis
    by (simp add: POST1_def try_block1_unparsed start_def)
next
  case (Inr parsed)
  show ?thesis
  proof (cases parsed)
    case JsonNull
    with Inr show ?thesis
      by (simp add: POST1_def try_block1_null start_def)
  next
    case (JsonObject d)
    with Inr have parsed: "request w = Inr (JsonObject d)"
      by simp
    consider "falsy (firstName d) \<or> falsy (phone d) \<or> falsy (postcode d)"
      | "\<not> (falsy (firstName d) \<or> falsy (phone d) \<or> falsy (postcode d))"
        "\<not> test_four_digits (string_value (postcode d))"
      | "\<not> (falsy (firstName d) \<or> falsy (phone d) \<or> falsy (postcode d))"
        "test_four_digits (string_value (postcode d))"
      by blast
    then show ?thesis
    proof cases
      case 1
      then show ?thesis
        by (simp add: POST1_def try_block1_missing [OF parsed] start_def)
    next
      case 2
      then show ?thesis
        by (simp add: POST1_def try_block1_postcode [OF parsed] start_def)
    next
      case 3
      then show ?thesis
        by (simp add: POST1_def try_block1_unconfigured [OF parsed _ _ assms] start_def)
    qed
  qed
qed

text \<open>
  C4, as the claim states it, fails: validation comes before the configuration check, so
  a request without any secret in the environment and with an empty \<open>firstName\<close> is
  answered with 400 "Missing required fields", not with 500.
\<close>

theorem unconfigured_invalid_submission_gets_400:
  "KLAVIYO_API_KEY (environment
     (sample_world (submission [] ''0412 345 678'' ''2000'') unconfigured [])) = None
   \<and> fst (POST2 (sample_world (submission [] ''0412 345 678'' ''2000'') unconfigured [])) =
       Response (Obj [(''success'', Bool False),
                      (''error'', Str (js ''Missing required fields''))])
         400 json_content_type
   \<and> fst (POST1 (sample_world (submission [] ''0412 345 678'' ''2000'') unconfigured [])) =
       Response (Obj [(''success'', Bool False),
                      (''error'', Str (js ''Missing required fields''))])
         400 json_content_type"
  by (simp add: run_defs failure_def)

text \<open>
  C4, amended. When a secret the handler requires is absent or empty (the API key or the
  list identifier; for the handler that subscribes first, the public API key or the list
  identifier), no outbound call is issued, whatever the request; and a submission that
  passes validation is answered with status 500 and the message
  "Server configuration error", after one \<open>console.error\<close> line.
\<close>

theorem missing_configuration:
  "(falsy (KLAVIYO_API_KEY (environment w)) \<or> falsy (KLAVIYO_LIST_ID (environment w)) \<longrightarrow>
      calls (snd (POST2 w)) = []
      \<and> (request w = Inr (JsonObject d) \<and> passes_validation d \<longrightarrow>
           POST2 w =
             (Response (Obj [(''success'', Bool False),
                             (''error'', Str (js ''Server configuration error''))])
                500 json_content_type,
              \<lparr>calls = [], console = [(js ''Missing Klaviyo configuration'', None)]\<rparr>)))
   \<and> (falsy (KLAVIYO_PUBLIC_API_KEY (environment w))
        \<or> falsy (KLAVIYO_LIST_ID (environment w)) \<longrightarrow>
      calls (snd (POST1 w)) = []
      \<and> (request w = Inr (JsonObject d) \<and> passes_validation d \<longrightarrow>
           POST1 w =
             (Response (Obj [(''success'', Bool False),
                             (''error'', Str (js ''Server configuration error''))])
                500 json_content_type,
              \<lparr>calls = [], console = [(js ''Missing Klaviyo configuration'', None)]\<rparr>)))"
proof (intro conjI impI)
  assume "falsy (KLAVIYO_API_KEY (environment w)) \<or> falsy (KLAVIYO_LIST_ID (environment w))"
  then show "calls (snd (POST2 w)) = []"
    by (rule POST2_unconfigured_no_calls)
next
  assume "falsy (KLAVIYO_API_KEY (environment w)) \<or> falsy (KLAVIYO_LIST_ID (environment w))"
    and "request w = Inr (JsonObject d) \<and> passes_validation d"
  then show "POST2 w =
      (Response (Obj [(''success'', Bool False),
                      (''error'', Str (js ''Server configuration error''))])
         500 json_content_type,
       \<lparr>calls = [], console = [(js ''Missing Klaviyo configuration'', None)]\<rparr>)"
    by (simp add: POST2_def try_block2_unconfigured passes_validation_def failure_def start_def)
next
  assume "falsy (KLAVIYO_PUBLIC_API_KEY (environment w))
          \<or> falsy (KLAVIYO_LIST_ID (environment w))"
  then show "calls (snd (POST1 w)) = []"
    by (rule POST1_unconfigured_no_calls)
next
  assume "falsy (KLAVIYO_PUBLIC_API_KEY (environment w))
          \<or> falsy (KLAVIYO_LIST_ID (environment w))"
    and "request w = Inr (JsonObject d) \<and> passes_validation d"
  then show "POST1 w =
      (Response (Obj [(''success'', Bool False),
                      (''error'', Str (js ''Server configuration error''))])
         500 json_content_type,
       \<lparr>calls = [], console = [(js ''Missing Klaviyo configuration'', None)]\<rparr>)"
    by (simp add: POST1_def try_block1_unconfigured passes_validation_def failure_def start_def)
qed

theorem missing_configuration_witness:
  "POST2 (sample_world (submission ''Dana'' ''0412 345 678'' ''2000'') unconfigured []) =
     (Response (Obj [(''success'', Bool False),
                     (''error'', Str (js ''Server configuration error''))])
        500 json_content_type,
      \<lparr>calls = [], console = [(js ''Missing Klaviyo configuration'', None)]\<rparr>)
   \<and> POST1 (sample_world (submission ''Dana'' ''0412 345 678'' ''2000'') unconfigured []) =
     (Response (Obj [(''success'', Bool False),
                     (''error'', Str (js ''Server configuration error''))])
        500 json_content_type,
      \<lparr>calls = [], console = [(js ''Missing Klaviyo configuration'', None)]\<rparr>)
   \<and> calls (snd (POST2 (sample_world (Inr JsonNull) unconfigured []))) = []"
  using
    missing_configuration
      [of "sample_world (submission ''Dana'' ''0412 345 678'' ''2000'') unconfigured []"
          "\<lparr>firstName = Some (js ''Dana''), phone = Some (js ''0412 345 678''),
            postcode = Some (js ''2000'')\<rparr>"]
    missing_configuration [of "sample_world (Inr JsonNull) unconfigured []"]
  by (simp add: sample_world_def submission_def unconfigured_def passes_validation_def
        js_def is_digit_def)

section \<open>Failures\<close>

text \<open>
  C5, as the claim states it, fails for the handler that subscribes first: its
  \<open>catch\<close> puts \<open>error.message\<close> in the response. When \<open>request.json()\<close> rejects
  with the message "Unexpected end of JSON input", that message is the \<open>error\<close> field
  of the 500 response.
\<close>

theorem parse_failure_message_in_response:
  "fst (POST1 (sample_world (Inl (Error (js ''Unexpected end of JSON input''))) configured [])) =
     Response (Obj [(''success'', Bool False),
                    (''error'', Str (js ''Unexpected end of JSON input''))])
       500 json_content_type"
  by (simp add: POST1_def try_block1_unparsed sample_world_def failure_def)

text \<open>
  C5, amended. A failure \<open>e\<close> thrown out of the \<open>try\<close> block of either handler is
  logged by \<open>console.error('Subscribe error:', e)\<close> and answered with status 500. The
  handler that creates the profile answers with the fixed message
  "An error occurred. Please try again."; the handler that subscribes first answers with
  the message of \<open>e\<close> when \<open>e\<close> is an \<open>Error\<close>, and with "An error occurred"
  otherwise. A rejected \<open>request.json()\<close> and a rejected first outbound call are such
  failures.
\<close>

theorem uncaught_failure:
  "(fst (try_block2 w start) = Inl e \<longrightarrow>
      fst (POST2 w) =
        Response (Obj [(''success'', Bool False),
                       (''error'', Str (js ''An error occurred. Please try again.''))])
          500 json_content_type
      \<and> last (console (snd (POST2 w))) = (js ''Subscribe error:'', Some (LoggedError e)))
   \<and> (fst (try_block1 w start) = Inl e \<longrightarrow>
      fst (POST1 w) =
        Response (Obj [(''success'', Bool False),
                       (''error'', Str (case e of Error message \<Rightarrow> message
                                        | Thrown \<Rightarrow> js ''An error occurred''))])
          500 json_content_type
      \<and> last (console (snd (POST1 w))) = (js ''Subscribe error:'', Some (LoggedError e)))
   \<and> (request w = Inl e \<longrightarrow>
      fst (try_block2 w start) = Inl e \<and> fst (try_block1 w start) = Inl e)
   \<and> (request w = Inr (JsonObject d) \<and> passes_validation d \<and> fetched w 0 = Rejects e \<longrightarrow>
      (\<not> (falsy (KLAVIYO_API_KEY (environment w))
           \<or> falsy (KLAVIYO_LIST_ID (environment w))) \<longrightarrow>
         fst (try_block2 w start) = Inl e)
      \<and> (\<not> (falsy (KLAVIYO_PUBLIC_API_KEY (environment w))
             \<or> falsy (KLAVIYO_LIST_ID (environment w))) \<longrightarrow>
         fst (try_block1 w start) = Inl e))"
proof (intro conjI impI)
  assume "fst (try_block2 w start) = Inl e"
  then obtain s where "try_block2 w start = (Inl e, s)"
    by (cases "try_block2 w start") simp
  then show
    "fst (POST2 w) =
       Response (Obj [(''success'', Bool False),
                      (''error'', Str (js ''An error occurred. Please try again.''))])
         500 json_content_type"
    "last (console (snd (POST2 w))) = (js ''Subscribe error:'', Some (LoggedError e))"
    by (simp_all add: POST2_caught failure_def)
next
  assume "fst (try_block1 w start) = Inl e"
  then obtain s where "try_block1 w start = (Inl e, s)"
    by (cases "try_block1 w start") simp
  then show
    "fst (POST1 w) =
       Response (Obj [(''success'', Bool False),
                      (''error'', Str (case e of Error message \<Rightarrow> message
                                       | Thrown \<Rightarrow> js ''An error occurred''))])
         500 json_content_type"
    "last (console (snd (POST1 w))) = (js ''Subscribe error:'', Some (LoggedError e))"
    by (cases e; simp add: POST1_caught failure_def)+
next
  assume "request w = Inl e"
  then show "fst (try_block2 w start) = Inl e" "fst (try_block1 w start) = Inl e"
    by (simp_all add: try_block2_unparsed try_block1_unparsed)
next
  assume valid: "request w = Inr (JsonObject d) \<and> passes_validation d \<and> fetched w 0 = Rejects e"
    and conf: "\<not> (falsy (KLAVIYO_API_KEY (environment w))
                  \<or> falsy (KLAVIYO_LIST_ID (environment w)))"
  have "try_block2 w start =
      and_then (create_or_update_profile w (string_value (KLAVIYO_API_KEY (environment w))) d
                 (formattedPhone (string_value (phone d))))
       (\<lambda>profileId.
          and_then (add_profile_to_list w (string_value (KLAVIYO_API_KEY (environment w)))
                      (string_value (KLAVIYO_LIST_ID (environment w))) profileId)
            (\<lambda>_. ret subscribed)) start"
    using valid conf by (intro try_block2_configured) (simp_all add: passes_validation_def)
  moreover have "fetched w (length (calls start)) = Rejects e"
    using valid by (simp add: start_def)
  ultimately show "fst (try_block2 w start) = Inl e"
    by (simp add: and_then_Inl [OF create_rejected])
next
  assume valid: "request w = Inr (JsonObject d) \<and> passes_validation d \<and> fetched w 0 = Rejects e"
    and conf: "\<not> (falsy (KLAVIYO_PUBLIC_API_KEY (environment w))
                  \<or> falsy (KLAVIYO_LIST_ID (environment w)))"
  have "try_block1 w start =
     and_then (fetch w (subscription_call w
                 (string_value (KLAVIYO_PUBLIC_API_KEY (environment w)))
                 (string_value (KLAVIYO_LIST_ID (environment w))) d
                 (formattedPhone (string_value (phone d)))))
       (\<lambda>response.
          and_then (text_of response) (\<lambda>responseText.
          and_then (if \<not> falsy (KLAVIYO_API_KEY (environment w)) then
                      verify_profile_exists w (string_value (KLAVIYO_API_KEY (environment w)))
                        (string_value (KLAVIYO_LIST_ID (environment w))) d
                        (formattedPhone (string_value (phone d)))
                    else ret ())
            (\<lambda>_. ret subscribed))) start"
    using valid conf by (intro try_block1_configured) (simp_all add: passes_validation_def)
  then show "fst (try_block1 w start) = Inl e"
    using valid by (simp add: and_then_fetch start_def)
qed

theorem uncaught_failure_witness:
  "fst (POST2 (sample_world (Inl (Error (js ''Unexpected end of JSON input''))) configured [])) =
     Response (Obj [(''success'', Bool False),
                    (''error'', Str (js ''An error occurred. Please try again.''))])
       500 json_content_type
   \<and> last (console (snd (POST2 (sample_world (Inl (Error (js ''Unexpected end of JSON input'')))
                                    configured [])))) =
       (js ''Subscribe error:'', Some (LoggedError (Error (js ''Unexpected end of JSON input''))))
   \<and> fst (POST2 (sample_world (submission ''Dana'' ''0412 345 678'' ''2000'') configured [])) =
     Response (Obj [(''success'', Bool False),
                    (''error'', Str (js ''An error occurred. Please try again.''))])
       500 json_content_type"
  using
    uncaught_failure
      [of "sample_world (Inl (Error (js ''Unexpected end of JSON input''))) configured []"
          "Error (js ''Unexpected end of JSON input'')"]
    uncaught_failure
      [of "sample_world (submission ''Dana'' ''0412 345 678'' ''2000'') configured []"
          "Error (js ''fetch failed'')"
          "\<lparr>firstName = Some (js ''Dana''), phone = Some (js ''0412 345 678''),
            postcode = Some (js ''2000'')\<rparr>"]
  by (simp add: sample_world_def submission_def configured_def passes_validation_def
        answers_def js_def is_digit_def)

section \<open>The upsert and the list membership\<close>

lemma list_step_run:
  "and_then (add_profile_to_list w k l pid) (\<lambda>_. ret r) s =
     (case fetched w (length (calls s)) of
        Rejects e \<Rightarrow> (Inl e, s\<lparr>calls := calls s @ [list_call k l pid]\<rparr>)
      | Resolves st b \<Rightarrow>
          if 200 \<le> st \<and> st \<le> 299 then
            (Inr r, s\<lparr>calls := calls s @ [list_call k l pid]\<rparr>)
          else
            (case b of
               Unreadable e \<Rightarrow> (Inl e, s\<lparr>calls := calls s @ [list_call k l pid]\<rparr>)
             | Readable t \<Rightarrow>
                 (Inr r,
                  s\<lparr>calls := calls s @ [list_call k l pid],
                    console := console s @ [(js ''Klaviyo list subscription failed:'',
                                              Some (LoggedText t))]\<rparr>)))"
  by (auto simp: and_then_def add_profile_to_list_run ret_def ok_def
        split: fetch_result.splits response_body.splits)

lemma try_block2_steps:
  assumes "request w = Inr (JsonObject d)" and "passes_validation d"
    and "KLAVIYO_API_KEY (environment w) = Some apiKey" and "apiKey \<noteq> []"
    and "KLAVIYO_LIST_ID (environment w) = Some listId" and "listId \<noteq> []"
  shows "try_block2 w start =
     and_then (create_or_update_profile w apiKey d (formattedPhone (string_value (phone d))))
       (\<lambda>profileId.
          and_then (add_profile_to_list w apiKey listId profileId) (\<lambda>_. ret subscribed))
       start"
  using assms try_block2_configured [of w d start]
  by (simp add: passes_validation_def)

lemma try_block2_created:
  assumes "request w = Inr (JsonObject d)" and "passes_validation d"
    and "KLAVIYO_API_KEY (environment w) = Some apiKey" and "apiKey \<noteq> []"
    and "KLAVIYO_LIST_ID (environment w) = Some listId" and "listId \<noteq> []"
    and "fetched w 0 = Resolves 201 (Readable t)" and "JSON_parse w t = Inr v"
    and "getp v ''data'' = Inr created" and "getp created ''id'' = Inr profileId"
  shows "try_block2 w start =
     and_then (add_profile_to_list w apiKey listId profileId) (\<lambda>_. ret subscribed)
       \<lparr>calls = [create_call w apiKey d (formattedPhone (string_value (phone d)))],
        console = []\<rparr>"
proof -
  have "fetched w (length (calls start)) = Resolves 201 (Readable t)"
    using assms(7) by (simp add: start_def)
  then have "create_or_update_profile w apiKey d (formattedPhone (string_value (phone d))) start =
      (Inr profileId,
       \<lparr>calls = [create_call w apiKey d (formattedPhone (string_value (phone d)))],
        console = []\<rparr>)"
    using assms(8-10) by (simp add: create_201 start_def)
  then show ?thesis
    unfolding try_block2_steps [OF assms(1-6)] by (rule and_then_Inr)
qed

lemma try_block2_conflict:
  assumes "request w = Inr (JsonObject d)" and "passes_validation d"
    and "KLAVIYO_API_KEY (environment w) = Some apiKey" and "apiKey \<noteq> []"
    and "KLAVIYO_LIST_ID (environment w) = Some listId" and "listId \<noteq> []"
    and "fetched w 0 = Resolves 409 (Readable t)" and "JSON_parse w t = Inr v"
    and "duplicate_profile_id v = Inr profileId" and "truthy profileId"
  shows "try_block2 w start =
     (case fetched w 1 of
        Rejects e \<Rightarrow>
          (Inl e,
           \<lparr>calls = [create_call w apiKey d (formattedPhone (string_value (phone d))),
                     patch_call w apiKey d profileId],
            console = []\<rparr>)
      | Resolves st b \<Rightarrow>
          and_then (add_profile_to_list w apiKey listId profileId) (\<lambda>_. ret subscribed)
            \<lparr>calls = [create_call w apiKey d (formattedPhone (string_value (phone d))),
                      patch_call w apiKey d profileId],
             console = []\<rparr>)"
proof -
  have "fetched w (length (calls start)) = Resolves 409 (Readable t)"
    using assms(7) by (simp add: start_def)
  then have "create_or_update_profile w apiKey d (formattedPhone (string_value (phone d))) start =
      (case fetched w 1 of Rejects e \<Rightarrow> Inl e | Resolves st b \<Rightarrow> Inr profileId,
       \<lparr>calls = [create_call w apiKey d (formattedPhone (string_value (phone d))),
                 patch_call w apiKey d profileId],
        console = []\<rparr>)"
    using assms(8-10) by (simp add: create_409 start_def)
  then show ?thesis
    unfolding try_block2_steps [OF assms(1-6)]
    by (cases "fetched w 1") (simp_all add: and_then_Inl and_then_Inr)
qed

lemma try_block2_create_failed:
  assumes "request w = Inr (JsonObject d)" and "passes_validation d"
    and "KLAVIYO_API_KEY (environment w) = Some apiKey" and "apiKey \<noteq> []"
    and "KLAVIYO_LIST_ID (environment w) = Some listId" and "listId \<noteq> []"
    and "fetched w 0 = Resolves st b"
    and "(st = 409 \<and> \<not> (\<exists>t v profileId. b = Readable t \<and> JSON_parse w t = Inr v
                               \<and> duplicate_profile_id v = Inr profileId \<and> truthy profileId))
         \<or> (st \<noteq> 201 \<and> st \<noteq> 409)"
  shows "\<exists>e cs. try_block2 w start =
           (Inl e, \<lparr>calls = [create_call w apiKey d (formattedPhone (string_value (phone d)))],
                    console = cs\<rparr>)"
proof -
  have first: "fetched w (length (calls start)) = Resolves st b"
    using assms(7) by (simp add: start_def)
  have "\<exists>e cs. create_or_update_profile w apiKey d (formattedPhone (string_value (phone d)))
                 start =
           (Inl e, \<lparr>calls = [create_call w apiKey d (formattedPhone (string_value (phone d)))],
                    console = cs\<rparr>)"
  proof (cases "st = 409")
    case True
    with first assms(8) show ?thesis
      by (auto simp: create_409 start_def split: response_body.splits sum.splits)
  next
    case False
    with first assms(8) show ?thesis
      by (auto simp: create_other start_def split: response_body.splits)
  qed
  then show ?thesis
    unfolding try_block2_steps [OF assms(1-6)] by (auto simp: and_then_Inl)
qed

text \<open>
  C1, as the claim states it, fails in its second branch: after a 409 that carries a
  \<open>duplicate_profile_id\<close> the PATCH is issued, but the request does not succeed when
  that PATCH call is rejected; the answer is 500.
\<close>

theorem conflict_with_rejected_update_gets_500:
  "fst (POST2 (sample_world (submission ''Dana'' ''0412 345 678'' ''2000'') configured
          [Resolves 409
             (Readable (js ''{\"errors\":[{\"meta\":{\"duplicate_profile_id\":\"P0\"}}]}'')),
           Rejects (Error (js ''fetch failed''))])) =
     Response (Obj [(''success'', Bool False),
                    (''error'', Str (js ''An error occurred. Please try again.''))])
       500 json_content_type
   \<and> map url (calls (snd (POST2
          (sample_world (submission ''Dana'' ''0412 345 678'' ''2000'') configured
             [Resolves 409
                (Readable (js ''{\"errors\":[{\"meta\":{\"duplicate_profile_id\":\"P0\"}}]}'')),
              Rejects (Error (js ''fetch failed''))])))) =
     [Profiles, Profile (Str (js ''P0''))]"
  by (simp add: run_defs failure_def create_call_def patch_call_def)

text \<open>
  C1, amended. For a submission that passes validation, with both secrets set, whose
  create-profile call returns a response:
  on 201 with a body that parses and holds \<open>data.id\<close>, that identifier is the one of
  the list-membership call, which is the only other call;
  on 409 with a body that parses and holds a truthy
  \<open>errors[0].meta.duplicate_profile_id\<close>, the second call is a PATCH against that
  identifier; when the PATCH call returns a response (of any status) the third and last
  call is the list-membership call with that identifier, and when that call completes
  the answer is the 200 success response; when the PATCH call is rejected the answer
  has status 500;
  on 409 without such an identifier, and on any other status, the answer has status 500
  and the create call is the only call.
\<close>

theorem upsert_three_branches:
  assumes "request w = Inr (JsonObject d)" and "passes_validation d"
    and "KLAVIYO_API_KEY (environment w) = Some apiKey" and "apiKey \<noteq> []"
    and "KLAVIYO_LIST_ID (environment w) = Some listId" and "listId \<noteq> []"
    and "fetched w 0 = Resolves st b"
  shows "(st = 201 \<and> b = Readable t \<and> JSON_parse w t = Inr v
          \<and> getp v ''data'' = Inr created \<and> getp created ''id'' = Inr profileId \<longrightarrow>
            calls (snd (POST2 w)) =
              [create_call w apiKey d (formattedPhone (string_value (phone d))),
               list_call apiKey listId profileId])
       \<and> (st = 409 \<and> b = Readable t \<and> JSON_parse w t = Inr v
          \<and> duplicate_profile_id v = Inr profileId \<and> truthy profileId \<longrightarrow>
            take 2 (calls (snd (POST2 w))) =
              [create_call w apiKey d (formattedPhone (string_value (phone d))),
               patch_call w apiKey d profileId]
            \<and> (fetched w 1 = Resolves st1 b1 \<longrightarrow>
                 calls (snd (POST2 w)) =
                   [create_call w apiKey d (formattedPhone (string_value (phone d))),
                    patch_call w apiKey d profileId,
                    list_call apiKey listId profileId]
                 \<and> (fetched w 2 = Resolves st2 b2
                     \<and> ((200 \<le> st2 \<and> st2 \<le> 299) \<or> b2 = Readable t2) \<longrightarrow>
                      fst (POST2 w) =
                        Response (Obj [(''success'', Bool True),
                                       (''message'',
                                        Str (js ''Successfully subscribed to the wait list!''))])
                          200 json_content_type))
            \<and> (fetched w 1 = Rejects e \<longrightarrow> status (fst (POST2 w)) = 500))
       \<and> ((st = 409 \<and> \<not> (\<exists>t v profileId. b = Readable t \<and> JSON_parse w t = Inr v
                                 \<and> duplicate_profile_id v = Inr profileId
                                 \<and> truthy profileId))
           \<or> (st \<noteq> 201 \<and> st \<noteq> 409) \<longrightarrow>
            status (fst (POST2 w)) = 500
            \<and> calls (snd (POST2 w)) =
                [create_call w apiKey d (formattedPhone (string_value (phone d)))])"
proof (intro conjI impI)
  assume "st = 201 \<and> b = Readable t \<and> JSON_parse w t = Inr v
          \<and> getp v ''data'' = Inr created \<and> getp created ''id'' = Inr profileId"
  then have "fetched w 0 = Resolves 201 (Readable t)" and "JSON_parse w t = Inr v"
    and "getp v ''data'' = Inr created" and "getp created ''id'' = Inr profileId"
    using assms(7) by simp_all
  then have "try_block2 w start =
     and_then (add_profile_to_list w apiKey listId profileId) (\<lambda>_. ret subscribed)
       \<lparr>calls = [create_call w apiKey d (formattedPhone (string_value (phone d)))],
        console = []\<rparr>"
    by (rule try_block2_created [OF assms(1-6)])
  then show "calls (snd (POST2 w)) =
      [create_call w apiKey d (formattedPhone (string_value (phone d))),
       list_call apiKey listId profileId]"
    by (simp add: POST2_def list_step_run split: fetch_result.splits response_body.splits)
next
  assume conflict: "st = 409 \<and> b = Readable t \<and> JSON_parse w t = Inr v
          \<and> duplicate_profile_id v = Inr profileId \<and> truthy profileId"
  then have run: "try_block2 w start =
     (case fetched w 1 of
        Rejects e \<Rightarrow>
          (Inl e,
           \<lparr>calls = [create_call w apiKey d (formattedPhone (string_value (phone d))),
                     patch_call w apiKey d profileId],
            console = []\<rparr>)
      | Resolves st b \<Rightarrow>
          and_then (add_profile_to_list w apiKey listId profileId) (\<lambda>_. ret subscribed)
            \<lparr>calls = [create_call w apiKey d (formattedPhone (string_value (phone d))),
                      patch_call w apiKey d profileId],
             console = []\<rparr>)"
    using assms(7) by (intro try_block2_conflict [OF assms(1-6), where t = t and v = v]) simp_all
  show "take 2 (calls (snd (POST2 w))) =
      [create_call w apiKey d (formattedPhone (string_value (phone d))),
       patch_call w apiKey d profileId]"
    by (simp add: POST2_def run list_step_run
          split: fetch_result.splits response_body.splits)
  {
    assume "fetched w 1 = Resolves st1 b1"
    then have patched: "fetched w (Suc 0) = Resolves st1 b1"
      by simp
    show "calls (snd (POST2 w)) =
        [create_call w apiKey d (formattedPhone (string_value (phone d))),
         patch_call w apiKey d profileId,
         list_call apiKey listId profileId]"
      by (simp add: POST2_def run patched list_step_run
            split: fetch_result.splits response_body.splits)
    assume "fetched w 2 = Resolves st2 b2
            \<and> ((200 \<le> st2 \<and> st2 \<le> 299) \<or> b2 = Readable t2)"
    then have "fetched w (Suc (Suc 0)) = Resolves st2 b2
            \<and> ((200 \<le> st2 \<and> st2 \<le> 299) \<or> b2 = Readable t2)"
      by (simp add: numeral_2_eq_2)
    then show "fst (POST2 w) =
        Response (Obj [(''success'', Bool True),
                       (''message'', Str (js ''Successfully subscribed to the wait list!''))])
          200 json_content_type"
      by (auto simp: POST2_def run patched list_step_run subscribed_def)
  }
  {
    assume "fetched w 1 = Rejects e"
    then have "fetched w (Suc 0) = Rejects e"
      by simp
    then show "status (fst (POST2 w)) = 500"
      by (simp add: POST2_def run failure_def)
  }
next
  assume "(st = 409 \<and> \<not> (\<exists>t v profileId. b = Readable t \<and> JSON_parse w t = Inr v
                                 \<and> duplicate_profile_id v = Inr profileId
                                 \<and> truthy profileId))
          \<or> (st \<noteq> 201 \<and> st \<noteq> 409)"
  then obtain e cs where "try_block2 w start =
      (Inl e, \<lparr>calls = [create_call w apiKey d (formattedPhone (string_value (phone d)))],
               console = cs\<rparr>)"
    using try_block2_create_failed [OF assms] by blast
  then show "status (fst (POST2 w)) = 500"
    "calls (snd (POST2 w)) =
       [create_call w apiKey d (formattedPhone (string_value (phone d)))]"
    by (simp_all add: POST2_def failure_def)
qed

theorem upsert_three_branches_witness:
  "fst (POST2 (sample_world (submission ''Dana'' ''0412 345 678'' ''2000'') configured
          [Resolves 409
             (Readable (js ''{\"errors\":[{\"meta\":{\"duplicate_profile_id\":\"P0\"}}]}'')),
           Resolves 200 (Readable []), Resolves 204 (Readable [])])) =
     Response (Obj [(''success'', Bool True),
                    (''message'', Str (js ''Successfully subscribed to the wait list!''))])
       200 json_content_type
   \<and> status (fst (POST2 (sample_world (submission ''Dana'' ''0412 345 678'' ''2000'') configured
          [Resolves 409 (Readable (js ''{\"errors\":[{\"code\":\"duplicate_profile\"}]}''))])))
       = 500
   \<and> map url (calls (snd (POST2
          (sample_world (submission ''Dana'' ''0412 345 678'' ''2000'') configured
             [Resolves 201 (Readable (js ''{\"data\":{\"id\":\"P1\"}}'')),
              Resolves 204 (Readable [])])))) =
       [Profiles, ListProfiles (js ''L1'')]"
  using
    upsert_three_branches
      [where w = "sample_world (submission ''Dana'' ''0412 345 678'' ''2000'') configured
          [Resolves 409
             (Readable (js ''{\"errors\":[{\"meta\":{\"duplicate_profile_id\":\"P0\"}}]}'')),
           Resolves 200 (Readable []), Resolves 204 (Readable [])]"
        and d = "\<lparr>firstName = Some (js ''Dana''), phone = Some (js ''0412 345 678''),
                  postcode = Some (js ''2000'')\<rparr>"
        and apiKey = "js ''sk''" and listId = "js ''L1''" and st = 409
        and b = "Readable (js ''{\"errors\":[{\"meta\":{\"duplicate_profile_id\":\"P0\"}}]}'')"
        and t = "js ''{\"errors\":[{\"meta\":{\"duplicate_profile_id\":\"P0\"}}]}''"
        and v = "Obj [(''errors'',
                   Arr [Obj [(''meta'', Obj [(''duplicate_profile_id'', Str (js ''P0''))])]])]"
        and profileId = "Str (js ''P0'')" and ?st1.0 = 200 and ?b1.0 = "Readable []"
        and ?st2.0 = 204 and ?b2.0 = "Readable []" and ?t2.0 = "[]"]
    upsert_three_branches
      [where w = "sample_world (submission ''Dana'' ''0412 345 678'' ''2000'') configured
          [Resolves 409 (Readable (js ''{\"errors\":[{\"code\":\"duplicate_profile\"}]}''))]"
        and d = "\<lparr>firstName = Some (js ''Dana''), phone = Some (js ''0412 345 678''),
                  postcode = Some (js ''2000'')\<rparr>"
        and apiKey = "js ''sk''" and listId = "js ''L1''" and st = 409
        and b = "Readable (js ''{\"errors\":[{\"code\":\"duplicate_profile\"}]}'')"]
    upsert_three_branches
      [where w = "sample_world (submission ''Dana'' ''0412 345 678'' ''2000'') configured
             [Resolves 201 (Readable (js ''{\"data\":{\"id\":\"P1\"}}'')),
              Resolves 204 (Readable [])]"
        and d = "\<lparr>firstName = Some (js ''Dana''), phone = Some (js ''0412 345 678''),
                  postcode = Some (js ''2000'')\<rparr>"
        and apiKey = "js ''sk''" and listId = "js ''L1''" and st = 201
        and b = "Readable (js ''{\"data\":{\"id\":\"P1\"}}'')"
        and t = "js ''{\"data\":{\"id\":\"P1\"}}''"
        and v = "Obj [(''data'', Obj [(''id'', Str (js ''P1''))])]"
        and created = "Obj [(''id'', Str (js ''P1''))]"
        and profileId = "Str (js ''P1'')"]
  by (simp add: sample_world_def submission_def configured_def passes_validation_def
        answers_def sample_parse_def getp_def duplicate_profile_id_def optional_chain_def
        js_def is_digit_def create_call_def list_call_def)

text \<open>
  C3, as the claim states it, fails: the answer does depend on what the membership-add
  call gives. With the profile created (201) and the membership-add call rejected, the
  answer is 500.
\<close>

theorem rejected_list_call_gets_500:
  "fst (POST2 (sample_world (submission ''Dana'' ''0412 345 678'' ''2000'') configured
          [Resolves 201 (Readable (js ''{\"data\":{\"id\":\"P1\"}}'')),
           Rejects (Error (js ''fetch failed''))])) =
     Response (Obj [(''success'', Bool False),
                    (''error'', Str (js ''An error occurred. Please try again.''))])
       500 json_content_type
   \<and> map url (calls (snd (POST2
          (sample_world (submission ''Dana'' ''0412 345 678'' ''2000'') configured
             [Resolves 201 (Readable (js ''{\"data\":{\"id\":\"P1\"}}'')),
              Rejects (Error (js ''fetch failed''))])))) =
     [Profiles, ListProfiles (js ''L1'')]"
  by (simp add: run_defs failure_def create_call_def list_call_def)

text \<open>
  C3, amended. For a submission that passes validation, with both secrets set, for which
  a profile identifier is resolved (a 201 whose body holds \<open>data.id\<close>, or a 409 whose
  body holds a truthy \<open>duplicate_profile_id\<close> followed by a PATCH call that returns a
  response), the list-membership call is issued with that identifier and is the last
  call. When it returns a response, the answer is the 200 success response whatever the
  status, and a status outside 200..299 is logged with the response's text; a status
  in 200..299 is not logged. When the call is rejected, or the text of a response
  outside 200..299 cannot be read, the answer has status 500.
\<close>

theorem list_membership_outcome:
  assumes "request w = Inr (JsonObject d)" and "passes_validation d"
    and "KLAVIYO_API_KEY (environment w) = Some apiKey" and "apiKey \<noteq> []"
    and "KLAVIYO_LIST_ID (environment w) = Some listId" and "listId \<noteq> []"
    and "(fetched w 0 = Resolves 201 (Readable t) \<and> JSON_parse w t = Inr v
          \<and> getp v ''data'' = Inr created \<and> getp created ''id'' = Inr profileId \<and> n = 1)
       \<or> (fetched w 0 = Resolves 409 (Readable t) \<and> JSON_parse w t = Inr v
          \<and> duplicate_profile_id v = Inr profileId \<and> truthy profileId
          \<and> fetched w 1 = Resolves st1 b1 \<and> n = 2)"
  shows "length (calls (snd (POST2 w))) = Suc n
       \<and> calls (snd (POST2 w)) ! n = list_call apiKey listId profileId
       \<and> (fetched w n = Resolves st (Readable errorText) \<longrightarrow>
            fst (POST2 w) =
              Response (Obj [(''success'', Bool True),
                             (''message'', Str (js ''Successfully subscribed to the wait list!''))])
                200 json_content_type
            \<and> console (snd (POST2 w)) =
                (if 200 \<le> st \<and> st \<le> 299 then []
                 else [(js ''Klaviyo list subscription failed:'', Some (LoggedText errorText))]))
       \<and> (fetched w n = Resolves st b \<and> 200 \<le> st \<and> st \<le> 299 \<longrightarrow>
            fst (POST2 w) =
              Response (Obj [(''success'', Bool True),
                             (''message'', Str (js ''Successfully subscribed to the wait list!''))])
                200 json_content_type)
       \<and> (fetched w n = Rejects e
           \<or> (fetched w n = Resolves st (Unreadable e) \<and> \<not> (200 \<le> st \<and> st \<le> 299)) \<longrightarrow>
            status (fst (POST2 w)) = 500)"
proof -
  obtain cs where run: "try_block2 w start =
      and_then (add_profile_to_list w apiKey listId profileId) (\<lambda>_. ret subscribed)
        \<lparr>calls = cs, console = []\<rparr>"
    and cs: "length cs = n"
  proof (cases "n = 1")
    case True
    then have "fetched w 0 = Resolves 201 (Readable t)" and "JSON_parse w t = Inr v"
      and "getp v ''data'' = Inr created" and "getp created ''id'' = Inr profileId"
      using assms(7) by simp_all
    then have "try_block2 w start =
        and_then (add_profile_to_list w apiKey listId profileId) (\<lambda>_. ret subscribed)
          \<lparr>calls = [create_call w apiKey d (formattedPhone (string_value (phone d)))],
           console = []\<rparr>"
      by (rule try_block2_created [OF assms(1-6)])
    with True that show ?thesis
      by simp
  next
    case False
    then have conflict: "fetched w 0 = Resolves 409 (Readable t)" "JSON_parse w t = Inr v"
      "duplicate_profile_id v = Inr profileId" "truthy profileId"
      and patched: "fetched w 1 = Resolves st1 b1" and n: "n = 2"
      using assms(7) by simp_all
    have "try_block2 w start =
        and_then (add_profile_to_list w apiKey listId profileId) (\<lambda>_. ret subscribed)
          \<lparr>calls = [create_call w apiKey d (formattedPhone (string_value (phone d))),
                    patch_call w apiKey d profileId],
           console = []\<rparr>"
      using try_block2_conflict [OF assms(1-6) conflict] patched by simp
    with n that show ?thesis
      by simp
  qed
  show ?thesis
    using cs
    by (auto simp: POST2_def run list_step_run subscribed_def failure_def nth_append
          split: fetch_result.splits response_body.splits)
qed

theorem list_membership_outcome_witness:
  "fst (POST2 (sample_world (submission ''Dana'' ''0412 345 678'' ''2000'') configured
          [Resolves 201 (Readable (js ''{\"data\":{\"id\":\"P1\"}}'')),
           Resolves 500 (Readable (js ''Internal Server Error''))])) =
     Response (Obj [(''success'', Bool True),
                    (''message'', Str (js ''Successfully subscribed to the wait list!''))])
       200 json_content_type
   \<and> console (snd (POST2 (sample_world (submission ''Dana'' ''0412 345 678'' ''2000'') configured
          [Resolves 201 (Readable (js ''{\"data\":{\"id\":\"P1\"}}'')),
           Resolves 500 (Readable (js ''Internal Server Error''))]))) =
     [(js ''Klaviyo list subscription failed:'', Some (LoggedText (js ''Internal Server Error'')))]
   \<and> calls (snd (POST2 (sample_world (submission ''Dana'' ''0412 345 678'' ''2000'') configured
          [Resolves 201 (Readable (js ''{\"data\":{\"id\":\"P1\"}}'')),
           Resolves 500 (Readable (js ''Internal Server Error''))]))) ! 1 =
     list_call (js ''sk'') (js ''L1'') (Str (js ''P1''))"
  using
    list_membership_outcome
      [where w = "sample_world (submission ''Dana'' ''0412 345 678'' ''2000'') configured
          [Resolves 201 (Readable (js ''{\"data\":{\"id\":\"P1\"}}'')),
           Resolves 500 (Readable (js ''Internal Server Error''))]"
        and d = "\<lparr>firstName = Some (js ''Dana''), phone = Some (js ''0412 345 678''),
                  postcode = Some (js ''2000'')\<rparr>"
        and apiKey = "js ''sk''" and listId = "js ''L1''"
        and t = "js ''{\"data\":{\"id\":\"P1\"}}''"
        and v = "Obj [(''data'', Obj [(''id'', Str (js ''P1''))])]"
        and created = "Obj [(''id'', Str (js ''P1''))]"
        and profileId = "Str (js ''P1'')" and n = 1
        and st = 500 and errorText = "js ''Internal Server Error''"]
  by (simp add: sample_world_def submission_def configured_def passes_validation_def
        answers_def sample_parse_def getp_def js_def is_digit_def)

section \<open>The calls of one invocation\<close>

lemma creates_contact_simps:
  "creates_contact (create_call w k d ph)"
  "\<not> creates_contact (patch_call w k d pid)"
  "\<not> creates_contact (list_call k l pid)"
  "creates_contact (subscription_call w pk l d ph)"
  "\<not> creates_contact (search_call k ph)"
  "\<not> creates_contact (update_call k d pid)"
  "creates_contact (create_missing_call w k d ph)"
  by (simp_all add: creates_contact_def create_call_def patch_call_def list_call_def
        subscription_call_def search_call_def update_call_def create_missing_call_def)

lemma updates_contact_simps:
  "\<not> updates_contact (create_call w k d ph)"
  "updates_contact (patch_call w k d pid)"
  "\<not> updates_contact (list_call k l pid)"
  "\<not> updates_contact (subscription_call w pk l d ph)"
  "\<not> updates_contact (search_call k ph)"
  "updates_contact (update_call k d pid)"
  "\<not> updates_contact (create_missing_call w k d ph)"
  by (simp_all add: updates_contact_def create_call_def patch_call_def list_call_def
        subscription_call_def search_call_def update_call_def create_missing_call_def)

lemma create_or_update_profile_calls:
  assumes "create_or_update_profile w k d ph s = (r, s')"
  shows "\<exists>cs. calls s' = calls s @ cs
            \<and> length (filter creates_contact cs) = 1
            \<and> length (filter updates_contact cs) \<le> 1"
proof (cases "fetched w (length (calls s))")
  case (Rejects e)
  with assms show ?thesis
    by (auto simp: create_rejected creates_contact_simps updates_contact_simps)
next
  case (Resolves st b)
  consider "st = 201" | "st = 409" | "st \<noteq> 201" "st \<noteq> 409"
    by blast
  then show ?thesis
  proof cases
    case 1
    with Resolves assms show ?thesis
      by (auto simp: create_201 creates_contact_simps updates_contact_simps)
  next
    case 2
    with Resolves assms show ?thesis
      by (auto simp: create_409 creates_contact_simps updates_contact_simps
            split: response_body.splits sum.splits if_splits)
  next
    case 3
    with Resolves assms show ?thesis
      by (auto simp: create_other creates_contact_simps updates_contact_simps
            split: response_body.splits)
  qed
qed

lemma add_profile_to_list_calls:
  assumes "add_profile_to_list w k l pid s = (r, s')"
  shows "calls s' = calls s @ [list_call k l pid]"
  using assms
  by (auto simp: add_profile_to_list_run
        split: fetch_result.splits response_body.splits if_splits)

lemma and_then_cases:
  assumes "and_then m f s = (r, s')"
  obtains e where "m s = (Inl e, s')" and "r = Inl e"
  | x s1 where "m s = (Inr x, s1)" and "f x s1 = (r, s')"
proof (cases "m s")
  case (Pair r1 s1)
  with assms that show ?thesis
    by (cases r1) (auto simp: and_then_def)
qed

lemma POST2_calls:
  "length (filter creates_contact (calls (snd (POST2 w)))) \<le> 1
   \<and> length (filter updates_contact (calls (snd (POST2 w)))) \<le> 1"
proof -
  have calls_POST2: "calls (snd (POST2 w)) = calls (snd (try_block2 w start))"
    by (cases "try_block2 w start") (auto simp: POST2_def split: sum.splits)
  obtain r s' where run: "try_block2 w start = (r, s')"
    by (cases "try_block2 w start")
  have "\<exists>cs. calls s' = cs \<and> length (filter creates_contact cs) \<le> 1
            \<and> length (filter updates_contact cs) \<le> 1"
  proof (cases "\<exists>d. request w = Inr (JsonObject d) \<and> passes_validation d
                    \<and> \<not> (falsy (KLAVIYO_API_KEY (environment w))
                          \<or> falsy (KLAVIYO_LIST_ID (environment w)))")
    case True
    then obtain d where d: "request w = Inr (JsonObject d)"
        "\<not> (falsy (firstName d) \<or> falsy (phone d) \<or> falsy (postcode d))"
        "test_four_digits (string_value (postcode d))"
        "\<not> (falsy (KLAVIYO_API_KEY (environment w)) \<or> falsy (KLAVIYO_LIST_ID (environment w)))"
      by (auto simp: passes_validation_def)
    from run [unfolded try_block2_configured [OF d]] show ?thesis
    proof (cases rule: and_then_cases)
      case (1 e)
      from create_or_update_profile_calls [OF 1(1)] show ?thesis
        by (auto simp: start_def)
    next
      case (2 pid s1)
      from create_or_update_profile_calls [OF 2(1)]
      obtain cs where cs: "calls s1 = cs" "length (filter creates_contact cs) = 1"
          "length (filter updates_contact cs) \<le> 1"
        by (auto simp: start_def)
      from 2(2) show ?thesis
      proof (cases rule: and_then_cases)
        case (1 e)
        from add_profile_to_list_calls [OF 1(1)] cs show ?thesis
          by (simp add: creates_contact_simps updates_contact_simps)
      next
        case (2 u s2)
        from add_profile_to_list_calls [OF 2(1)] 2(2) cs show ?thesis
          by (auto simp: ret_def creates_contact_simps updates_contact_simps)
      qed
    qed
  next
    case False
    have "calls (snd (try_block2 w start)) = []"
    proof (cases "request w")
      case (Inl e)
      then show ?thesis
        by (simp add: try_block2_unparsed start_def)
    next
      case (Inr parsed)
      show ?thesis
      proof (cases parsed)
        case JsonNull
        with Inr show ?thesis
          by (simp add: try_block2_null start_def)
      next
        case (JsonObject d)
        with Inr have parsed: "request w = Inr (JsonObject d)"
          by simp
        consider "falsy (firstName d) \<or> falsy (phone d) \<or> falsy (postcode d)"
          | "\<not> (falsy (firstName d) \<or> falsy (phone d) \<or> falsy (postcode d))"
            "\<not> test_four_digits (string_value (postcode d))"
          | "\<not> (falsy (firstName d) \<or> falsy (phone d) \<or> falsy (postcode d))"
            "test_four_digits (string_value (postcode d))"
            "falsy (KLAVIYO_API_KEY (environment w)) \<or> falsy (KLAVIYO_LIST_ID (environment w))"
          using False parsed by (auto simp: passes_validation_def)
        then show ?thesis
        proof cases
          case 1
          then show ?thesis
            by (simp add: try_block2_missing [OF parsed] start_def)
        next
          case 2
          then show ?thesis
            by (simp add: try_block2_postcode [OF parsed] start_def)
        next
          case 3
          then show ?thesis
            by (simp add: try_block2_unconfigured [OF parsed] start_def)
        qed
      qed
    qed
    with run show ?thesis
      by simp
  qed
  with run calls_POST2 show ?thesis
    by simp
qed

lemma and_then_lift:
  "and_then (lift r) f s = (case r of Inl e \<Rightarrow> (Inl e, s) | Inr x \<Rightarrow> f x s)"
  by (simp add: and_then_def lift_def split: sum.splits)

lemma and_then_text_of:
  "and_then (text_of r) f s =
     (case snd r of Unreadable e \<Rightarrow> (Inl e, s) | Readable t \<Rightarrow> f t s)"
  by (simp add: and_then_def text_of_def throw_def ret_def split: response_body.splits)

lemma and_then_ret: "and_then (ret x) f s = f x s"
  by (simp add: and_then_def ret_def)

lemma ret_apply: "ret x s = (Inr x, s)"
  by (simp add: ret_def)

lemmas io_steps = and_then_fetch and_then_lift and_then_text_of and_then_ret
  and_then_console_error ret_apply

lemma update_found_profile_calls:
  assumes "update_found_profile w k l d found s = (r, s')"
  shows "\<exists>cs. calls s' = calls s @ cs
            \<and> length (filter creates_contact cs) = 0
            \<and> length (filter updates_contact cs) \<le> 1"
  using assms
  by (auto simp: update_found_profile_def io_steps
        creates_contact_simps updates_contact_simps
        split: sum.splits fetch_result.splits)

lemma create_missing_profile_calls:
  assumes "create_missing_profile w k l d ph s = (r, s')"
  shows "\<exists>cs. calls s' = calls s @ cs
            \<and> length (filter creates_contact cs) = 1
            \<and> length (filter updates_contact cs) = 0"
  using assms
  by (auto simp: create_missing_profile_def io_steps
        creates_contact_simps updates_contact_simps
        split: sum.splits fetch_result.splits response_body.splits if_splits)

lemma verify_profile_exists_calls:
  assumes "verify_profile_exists w k l d ph s = (r, s')"
  shows "\<exists>cs. calls s' = calls s @ cs
            \<and> length (filter creates_contact cs) + length (filter updates_contact cs) \<le> 1"
proof (cases "fetched w (length (calls s))")
  case (Rejects e)
  with assms show ?thesis
    by (auto simp: verify_profile_exists_def and_then_fetch creates_contact_simps
          updates_contact_simps)
next
  case (Resolves st b)
  let ?s1 = "s\<lparr>calls := calls s @ [search_call k ph]\<rparr>"
  show ?thesis
  proof (cases b)
    case (Unreadable e)
    with Resolves assms show ?thesis
      by (auto simp: verify_profile_exists_def io_steps
            creates_contact_simps updates_contact_simps)
  next
    case (Readable t)
    show ?thesis
    proof (cases "ok (st, b)")
      case False
      with Resolves Readable assms show ?thesis
        by (auto simp: verify_profile_exists_def io_steps
              creates_contact_simps updates_contact_simps)
    next
      case True
      let ?inner = "and_then (lift (JSON_parse w t)) (\<lambda>searchData.
            and_then (lift (getp searchData ''data'')) (\<lambda>found.
              if truthy found \<and> gt_zero w (member found ''length'') then
                update_found_profile w k l d found
              else
                create_missing_profile w k l d ph))"
      obtain r1 s2 where inner: "?inner ?s1 = (r1, s2)"
        by (cases "?inner ?s1")
      have s': "calls s' = calls s2"
        using assms Resolves Readable True inner
        by (auto simp: verify_profile_exists_def and_then_fetch and_then_text_of
              ret_apply try_catch_def console_error_def split: sum.splits)
      have "\<exists>cs. calls s2 = calls ?s1 @ cs
            \<and> length (filter creates_contact cs) + length (filter updates_contact cs) \<le> 1"
      proof (cases "JSON_parse w t")
        case (Inl e)
        with inner show ?thesis
          by (auto simp: and_then_lift_Inl)
      next
        case parsed: (Inr searchData)
        show ?thesis
        proof (cases "getp searchData ''data''")
          case (Inl e)
          with parsed inner show ?thesis
            by (auto simp: and_then_lift_Inl and_then_lift_Inr)
        next
          case (Inr found)
          show ?thesis
          proof (cases "truthy found \<and> gt_zero w (member found ''length'')")
            case True
            with parsed Inr inner
            have "update_found_profile w k l d found ?s1 = (r1, s2)"
              by (simp add: and_then_lift_Inr)
            from update_found_profile_calls [OF this] show ?thesis
              by auto
          next
            case False
            with parsed Inr inner
            have "create_missing_profile w k l d ph ?s1 = (r1, s2)"
              by (auto simp: and_then_lift_Inr)
            from create_missing_profile_calls [OF this] show ?thesis
              by auto
          qed
        qed
      qed
      then show ?thesis
        using s' by (auto simp: creates_contact_simps updates_contact_simps)
    qed
  qed
qed

lemma POST1_calls:
  "length (filter creates_contact (calls (snd (POST1 w))))
   + length (filter updates_contact (calls (snd (POST1 w)))) \<le> 2"
proof -
  have calls_POST1: "calls (snd (POST1 w)) = calls (snd (try_block1 w start))"
    by (cases "try_block1 w start") (auto simp: POST1_def split: sum.splits)
  obtain r s' where run: "try_block1 w start = (r, s')"
    by (cases "try_block1 w start")
  have "length (filter creates_contact (calls s'))
        + length (filter updates_contact (calls s')) \<le> 2"
  proof (cases "\<exists>d. request w = Inr (JsonObject d) \<and> passes_validation d
                    \<and> \<not> (falsy (KLAVIYO_PUBLIC_API_KEY (environment w))
                          \<or> falsy (KLAVIYO_LIST_ID (environment w)))")
    case True
    then obtain d where d: "request w = Inr (JsonObject d)"
        "\<not> (falsy (firstName d) \<or> falsy (phone d) \<or> falsy (postcode d))"
        "test_four_digits (string_value (postcode d))"
        "\<not> (falsy (KLAVIYO_PUBLIC_API_KEY (environment w))
            \<or> falsy (KLAVIYO_LIST_ID (environment w)))"
      by (auto simp: passes_validation_def)
    let ?sub = "subscription_call w (string_value (KLAVIYO_PUBLIC_API_KEY (environment w)))
                 (string_value (KLAVIYO_LIST_ID (environment w))) d
                 (formattedPhone (string_value (phone d)))"
    let ?s1 = "\<lparr>calls = [?sub], console = []\<rparr>"
    show ?thesis
    proof (cases "fetched w 0")
      case (Rejects e)
      with run show ?thesis
        by (auto simp: try_block1_configured [OF d] and_then_fetch start_def
              creates_contact_simps updates_contact_simps)
    next
      case (Resolves st b)
      show ?thesis
      proof (cases b)
        case (Unreadable e)
        with Resolves run show ?thesis
          by (auto simp: try_block1_configured [OF d] io_steps start_def
                creates_contact_simps updates_contact_simps)
      next
        case (Readable t)
        show ?thesis
        proof (cases "falsy (KLAVIYO_API_KEY (environment w))")
          case True
          with Resolves Readable run show ?thesis
            by (auto simp: try_block1_configured [OF d] io_steps start_def
                  creates_contact_simps updates_contact_simps)
        next
          case False
          let ?verify = "verify_profile_exists w (string_value (KLAVIYO_API_KEY (environment w)))
                        (string_value (KLAVIYO_LIST_ID (environment w))) d
                        (formattedPhone (string_value (phone d)))"
          obtain r1 s2 where verify: "?verify ?s1 = (r1, s2)"
            by (cases "?verify ?s1")
          have "calls s' = calls s2"
            using Resolves Readable False run verify
            by (auto simp: try_block1_configured [OF d] and_then_fetch and_then_text_of
                  start_def and_then_def [of "verify_profile_exists _ _ _ _ _"] ret_apply
                  split: sum.splits)
          moreover from verify_profile_exists_calls [OF verify]
          obtain cs where "calls s2 = [?sub] @ cs"
            "length (filter creates_contact cs) + length (filter updates_contact cs) \<le> 1"
            by auto
          ultimately show ?thesis
            by (simp add: creates_contact_simps updates_contact_simps)
        qed
      qed
    qed
  next
    case False
    have "calls (snd (try_block1 w start)) = []"
    proof (cases "request w")
      case (Inl e)
      then show ?thesis
        by (simp add: try_block1_unparsed start_def)
    next
      case (Inr parsed)
      show ?thesis
      proof (cases parsed)
        case JsonNull
        with Inr show ?thesis
          by (simp add: try_block1_null start_def)
      next
        case (JsonObject d)
        with Inr have parsed: "request w = Inr (JsonObject d)"
          by simp
        consider "falsy (firstName d) \<or> falsy (phone d) \<or> falsy (postcode d)"
          | "\<not> (falsy (firstName d) \<or> falsy (phone d) \<or> falsy (postcode d))"
            "\<not> test_four_digits (string_value (postcode d))"
          | "\<not> (falsy (firstName d) \<or> falsy (phone d) \<or> falsy (postcode d))"
            "test_four_digits (string_value (postcode d))"
            "falsy (KLAVIYO_PUBLIC_API_KEY (environment w))
             \<or> falsy (KLAVIYO_LIST_ID (environment w))"
          using False parsed by (auto simp: passes_validation_def)
        then show ?thesis
        proof cases
          case 1
          then show ?thesis
            by (simp add: try_block1_missing [OF parsed] start_def)
        next
          case 2
          then show ?thesis
            by (simp add: try_block1_postcode [OF parsed] start_def)
        next
          case 3
          then show ?thesis
            by (simp add: try_block1_unconfigured [OF parsed] start_def)
        qed
      qed
    qed
    with run show ?thesis
      by simp
  qed
  with calls_POST1 run show ?thesis
    by simp
qed

section \<open>What the answer depends on\<close>

lemma agree_ret: "agree (ret x) (ret x)"
  by (simp add: agree_def ret_def)

lemma agree_throw: "agree (throw e) (throw e)"
  by (simp add: agree_def throw_def)

lemma agree_lift: "agree (lift r) (lift r)"
  by (simp add: agree_def lift_def)

lemma agree_console_error: "agree (console_error l x) (console_error l x)"
  by (simp add: agree_def console_error_def same_observations_def)

lemma agree_fetch: "fetched w' = fetched w \<Longrightarrow> agree (fetch w c) (fetch w' c')"
  by (simp add: agree_def fetch_def same_observations_def)

lemma agree_text_of: "agree (text_of r) (text_of r)"
  by (cases "snd r") (simp_all add: text_of_def agree_ret agree_throw)

lemma agree_and_then:
  assumes "agree m m'" and "\<And>x. agree (f x) (f' x)"
  shows "agree (and_then m f) (and_then m' f')"
  unfolding agree_def
proof (intro allI impI)
  fix s s'
  assume "same_observations s s'"
  with assms(1) have m: "fst (m s) = fst (m' s')"
    "same_observations (snd (m s)) (snd (m' s'))"
    by (simp_all add: agree_def)
  show "fst (and_then m f s) = fst (and_then m' f' s')
        \<and> same_observations (snd (and_then m f s)) (snd (and_then m' f' s'))"
  proof (cases "m s")
    case ms: (Pair r s1)
    show ?thesis
    proof (cases "m' s'")
      case ms': (Pair r' s1')
      with ms m have "r' = r" and "same_observations s1 s1'"
        by simp_all
      with ms ms' assms(2) show ?thesis
        by (cases r) (simp_all add: and_then_def agree_def)
    qed
  qed
qed

lemma agree_try_catch:
  assumes "agree m m'" and "\<And>e. agree (h e) (h' e)"
  shows "agree (try_catch m h) (try_catch m' h')"
  unfolding agree_def
proof (intro allI impI)
  fix s s'
  assume "same_observations s s'"
  with assms(1) have m: "fst (m s) = fst (m' s')"
    "same_observations (snd (m s)) (snd (m' s'))"
    by (simp_all add: agree_def)
  show "fst (try_catch m h s) = fst (try_catch m' h' s')
        \<and> same_observations (snd (try_catch m h s)) (snd (try_catch m' h' s'))"
  proof (cases "m s")
    case ms: (Pair r s1)
    show ?thesis
    proof (cases "m' s'")
      case ms': (Pair r' s1')
      with ms m have "r' = r" and "same_observations s1 s1'"
        by simp_all
      with ms ms' assms(2) show ?thesis
        by (cases r) (simp_all add: try_catch_def agree_def)
    qed
  qed
qed

lemma agree_if:
  assumes "c \<Longrightarrow> agree m m'" and "\<not> c \<Longrightarrow> agree n n'"
  shows "agree (if c then m else n) (if c then m' else n')"
  using assms by simp

lemma agree_json_of: "JSON_parse w' = JSON_parse w \<Longrightarrow> agree (json_of w r) (json_of w' r)"
  by (simp add: json_of_def agree_and_then agree_text_of agree_lift)

lemmas agree_intros = agree_ret agree_throw agree_lift agree_console_error agree_fetch
  agree_text_of agree_json_of agree_and_then agree_try_catch agree_if

lemma create_or_update_profile_agree:
  assumes "fetched w' = fetched w" and "JSON_parse w' = JSON_parse w"
  shows "agree (create_or_update_profile w k d ph) (create_or_update_profile w' k d ph)"
  unfolding create_or_update_profile_def
  by (intro agree_intros assms)

lemma add_profile_to_list_agree:
  assumes "fetched w' = fetched w"
  shows "agree (add_profile_to_list w k l pid) (add_profile_to_list w' k l pid)"
  unfolding add_profile_to_list_def
  by (intro agree_intros assms)

lemma try_block2_agree:
  assumes "request w' = request w" and "environment w' = environment w"
    and "fetched w' = fetched w" and "JSON_parse w' = JSON_parse w"
  shows "agree (try_block2 w) (try_block2 w')"
  unfolding try_block2_def Let_def assms(1,2)
  by (intro agree_intros create_or_update_profile_agree add_profile_to_list_agree assms)

lemma update_found_profile_agree:
  assumes "fetched w' = fetched w"
  shows "agree (update_found_profile w k l d found) (update_found_profile w' k l d found)"
  unfolding update_found_profile_def
  by (intro agree_intros assms)

lemma create_missing_profile_agree:
  assumes "fetched w' = fetched w" and "JSON_parse w' = JSON_parse w"
  shows "agree (create_missing_profile w k l d ph) (create_missing_profile w' k l d ph)"
  unfolding create_missing_profile_def assms(2)
  by (intro agree_intros assms)

lemma verify_profile_exists_agree:
  assumes "fetched w' = fetched w" and "JSON_parse w' = JSON_parse w"
    and "coerced_gt_zero w' = coerced_gt_zero w"
  shows "agree (verify_profile_exists w k l d ph) (verify_profile_exists w' k l d ph)"
proof -
  have gt: "gt_zero w' = gt_zero w"
    by (simp add: gt_zero_def fun_eq_iff assms(3) split: jsval.splits)
  show ?thesis
    unfolding verify_profile_exists_def assms(2) gt
    by (intro agree_intros update_found_profile_agree create_missing_profile_agree assms)
qed

lemma try_block1_agree:
  assumes "request w' = request w" and "environment w' = environment w"
    and "fetched w' = fetched w" and "JSON_parse w' = JSON_parse w"
    and "coerced_gt_zero w' = coerced_gt_zero w"
  shows "agree (try_block1 w) (try_block1 w')"
  unfolding try_block1_def Let_def assms(1,2)
  by (intro agree_intros verify_profile_exists_agree assms)

lemma POST2_agree:
  assumes "request w' = request w" and "environment w' = environment w"
    and "fetched w' = fetched w" and "JSON_parse w' = JSON_parse w"
  shows "fst (POST2 w') = fst (POST2 w) \<and> console (snd (POST2 w')) = console (snd (POST2 w))"
proof -
  have "fst (try_block2 w start) = fst (try_block2 w' start)
        \<and> same_observations (snd (try_block2 w start)) (snd (try_block2 w' start))"
    using try_block2_agree [OF assms] by (simp add: agree_def same_observations_def)
  then show ?thesis
    by (cases "try_block2 w start"; cases "try_block2 w' start")
      (auto simp: POST2_def same_observations_def split: sum.splits)
qed

lemma POST1_agree:
  assumes "request w' = request w" and "environment w' = environment w"
    and "fetched w' = fetched w" and "JSON_parse w' = JSON_parse w"
    and "coerced_gt_zero w' = coerced_gt_zero w"
  shows "fst (POST1 w') = fst (POST1 w) \<and> console (snd (POST1 w')) = console (snd (POST1 w))"
proof -
  have "fst (try_block1 w start) = fst (try_block1 w' start)
        \<and> same_observations (snd (try_block1 w start)) (snd (try_block1 w' start))"
    using try_block1_agree [OF assms] by (simp add: agree_def same_observations_def)
  then show ?thesis
    by (cases "try_block1 w start"; cases "try_block1 w' start")
      (auto simp: POST1_def same_observations_def split: sum.splits)
qed

text \<open>
  C8, as the claim states it, fails for the handler that subscribes first: when the
  search finds no profile, one request creates the contact twice, once through the client
  subscription endpoint and once through the profiles endpoint.
\<close>

theorem subscription_then_create_are_two_attempts:
  "length (filter creates_contact (calls (snd (POST1
      (sample_world (submission ''Dana'' ''0412 345 678'' ''2000'') configured
         [Resolves 202 (Readable []),
          Resolves 200 (Readable (js ''{\"data\":[]}'')),
          Resolves 201 (Readable (js ''{\"data\":{\"id\":\"P1\"}}'')),
          Resolves 204 (Readable [])]))))) = 2
   \<and> map url (calls (snd (POST1
      (sample_world (submission ''Dana'' ''0412 345 678'' ''2000'') configured
         [Resolves 202 (Readable []),
          Resolves 200 (Readable (js ''{\"data\":[]}'')),
          Resolves 201 (Readable (js ''{\"data\":{\"id\":\"P1\"}}'')),
          Resolves 204 (Readable [])])))) =
     [ClientSubscriptions (js ''pk''), ProfileSearch (js ''+61412345678''), Profiles,
      ListProfiles (js ''L1'')]"
  by (simp add: run_defs subscription_call_def search_call_def create_missing_call_def
        list_call_def creates_contact_def formattedPhone_def is_space_def plus_sign_def
        digit_zero_def startsWith_def slice1_def)

text \<open>
  C8, amended. The handler that creates the profile issues at most one call that creates
  a contact and at most one call that updates one (the PATCH after a conflict, which
  completes the same upsert). The handler that subscribes first issues at most two
  create or update calls in all: the client subscription, and then either one update of
  the profile it found or one create. Neither handler keeps state between requests:
  the response is the same in any two worlds that agree on the request, the
  configuration and the results of the outbound calls (and on the JSON parser and the
  number conversion of the language), whatever the clock shows.
\<close>

theorem write_attempts_per_request:
  "length (filter creates_contact (calls (snd (POST2 w)))) \<le> 1
   \<and> length (filter updates_contact (calls (snd (POST2 w)))) \<le> 1
   \<and> length (filter creates_contact (calls (snd (POST1 w))))
     + length (filter updates_contact (calls (snd (POST1 w)))) \<le> 2
   \<and> (request w' = request w \<and> environment w' = environment w
      \<and> fetched w' = fetched w \<and> JSON_parse w' = JSON_parse w \<longrightarrow>
        fst (POST2 w') = fst (POST2 w))
   \<and> (request w' = request w \<and> environment w' = environment w
      \<and> fetched w' = fetched w \<and> JSON_parse w' = JSON_parse w
      \<and> coerced_gt_zero w' = coerced_gt_zero w \<longrightarrow>
        fst (POST1 w') = fst (POST1 w))"
proof (intro conjI impI)
  show "length (filter creates_contact (calls (snd (POST2 w)))) \<le> 1"
    and "length (filter updates_contact (calls (snd (POST2 w)))) \<le> 1"
    using POST2_calls [of w] by simp_all
next
  show "length (filter creates_contact (calls (snd (POST1 w))))
        + length (filter updates_contact (calls (snd (POST1 w)))) \<le> 2"
    by (rule POST1_calls)
next
  assume "request w' = request w \<and> environment w' = environment w
          \<and> fetched w' = fetched w \<and> JSON_parse w' = JSON_parse w"
  then show "fst (POST2 w') = fst (POST2 w)"
    using POST2_agree [of w' w] by simp
next
  assume "request w' = request w \<and> environment w' = environment w
          \<and> fetched w' = fetched w \<and> JSON_parse w' = JSON_parse w
          \<and> coerced_gt_zero w' = coerced_gt_zero w"
  then show "fst (POST1 w') = fst (POST1 w)"
    using POST1_agree [of w' w] by simp
qed

theorem write_attempts_per_request_witness:
  "fst (POST2 ((sample_world (submission ''Dana'' ''0412 345 678'' ''2000'') configured
                  [Resolves 201 (Readable (js ''{\"data\":{\"id\":\"P1\"}}'')),
                   Resolves 204 (Readable [])])\<lparr>clock := later_clock\<rparr>)) =
   fst (POST2 (sample_world (submission ''Dana'' ''0412 345 678'' ''2000'') configured
                  [Resolves 201 (Readable (js ''{\"data\":{\"id\":\"P1\"}}'')),
                   Resolves 204 (Readable [])]))
   \<and> fst (POST1 ((sample_world (submission ''Dana'' ''0412 345 678'' ''2000'') configured
                  [Resolves 201 (Readable (js ''{\"data\":{\"id\":\"P1\"}}'')),
                   Resolves 204 (Readable [])])\<lparr>clock := later_clock\<rparr>)) =
   fst (POST1 (sample_world (submission ''Dana'' ''0412 345 678'' ''2000'') configured
                  [Resolves 201 (Readable (js ''{\"data\":{\"id\":\"P1\"}}'')),
                   Resolves 204 (Readable [])]))
   \<and> length (filter creates_contact (calls (snd (POST2
        (sample_world (submission ''Dana'' ''0412 345 678'' ''2000'') configured
                  [Resolves 201 (Readable (js ''{\"data\":{\"id\":\"P1\"}}'')),
                   Resolves 204 (Readable [])]))))) \<le> 1"
  using write_attempts_per_request
    [of "sample_world (submission ''Dana'' ''0412 345 678'' ''2000'') configured
                  [Resolves 201 (Readable (js ''{\"data\":{\"id\":\"P1\"}}'')),
                   Resolves 204 (Readable [])]"
        "(sample_world (submission ''Dana'' ''0412 345 678'' ''2000'') configured
                  [Resolves 201 (Readable (js ''{\"data\":{\"id\":\"P1\"}}'')),
                   Resolves 204 (Readable [])])\<lparr>clock := later_clock\<rparr>"]
  by simp

end
